theory Spec2Isabelle
  imports Main
begin

section \<open>JavaScript strings\<close>

text \<open>
  A JavaScript string is a sequence of UTF-16 code units. It is modelled as a list of
  natural numbers (every code unit is below 65536). \<open>js\<close> turns an ASCII literal of the
  source into its code units; literals of the source that are written in Thai are given
  by their code units.
\<close>

type_synonym jsstring = "nat list"

definition js :: "string \<Rightarrow> jsstring" where
  "js s = map of_char s"

text \<open>\<open>String.prototype.startsWith\<close> and \<open>String.prototype.includes\<close>.\<close>

fun startsWith :: "jsstring \<Rightarrow> jsstring \<Rightarrow> bool" where
  "startsWith s [] = True"
| "startsWith [] (p # ps) = False"
| "startsWith (c # cs) (p # ps) = (c = p \<and> startsWith cs ps)"

fun includes_js :: "jsstring \<Rightarrow> jsstring \<Rightarrow> bool" where
  "includes_js [] p = (p = [])"
| "includes_js (c # cs) p = (startsWith (c # cs) p \<or> includes_js cs p)"

text \<open>
  White space as \<open>String.prototype.trim\<close> and the regular expression class \<open>\s\<close>
  have it: TAB, LF, VT, FF, CR, space, NBSP, the Unicode space separators, LS, PS and
  the byte order mark.
\<close>

definition is_ws :: "nat \<Rightarrow> bool" where
  "is_ws c \<longleftrightarrow>
     (9 \<le> c \<and> c \<le> 13) \<or> c = 32 \<or> c = 160 \<or> c = 0x1680 \<or> (0x2000 \<le> c \<and> c \<le> 0x200A)
     \<or> c = 0x2028 \<or> c = 0x2029 \<or> c = 0x202F \<or> c = 0x205F \<or> c = 0x3000 \<or> c = 0xFEFF"

definition trim :: "jsstring \<Rightarrow> jsstring" where
  "trim s = rev (dropWhile is_ws (rev (dropWhile is_ws s)))"

text \<open>
  \<open>String.prototype.toLowerCase\<close> on the letters A to Z. The mapping of cased letters
  outside ASCII is not modelled: the definition is exact on strings of ASCII code units,
  which is what model identifiers are.
\<close>

definition lower_unit :: "nat \<Rightarrow> nat" where
  "lower_unit c = (if 65 \<le> c \<and> c \<le> 90 then c + 32 else c)"

definition toLowerCase :: "jsstring \<Rightarrow> jsstring" where
  "toLowerCase s = map lower_unit s"

definition is_ascii :: "jsstring \<Rightarrow> bool" where
  "is_ascii s = list_all (\<lambda>c. c < 128) s"

text \<open>The class \<open>\d\<close>, and \<open>parseInt\<close> on a run of decimal digits.\<close>

definition is_digit :: "nat \<Rightarrow> bool" where
  "is_digit c \<longleftrightarrow> 48 \<le> c \<and> c \<le> 57"

definition parseInt :: "jsstring \<Rightarrow> nat" where
  "parseInt ds = foldl (\<lambda>n c. 10 * n + (c - 48)) 0 ds"

text \<open>\<open>strip_prefix p s\<close>: what follows the literal \<open>p\<close> at the start of \<open>s\<close>.\<close>

fun strip_prefix :: "jsstring \<Rightarrow> jsstring \<Rightarrow> jsstring option" where
  "strip_prefix [] s = Some s"
| "strip_prefix (p # ps) [] = None"
| "strip_prefix (p # ps) (c # cs) = (if c = p then strip_prefix ps cs else None)"

text \<open>
  \<open>String.prototype.match\<close> with a regular expression that has no \<open>g\<close> flag tries
  the start positions from left to right and returns the first match. \<open>search m s\<close>
  does that for a matcher \<open>m\<close> that matches at the start of its argument.
\<close>

fun search :: "(jsstring \<Rightarrow> 'a option) \<Rightarrow> jsstring \<Rightarrow> 'a option" where
  "search m [] = m []"
| "search m (c # cs) = (case m (c # cs) of Some r \<Rightarrow> Some r | None \<Rightarrow> search m cs)"

section \<open>JavaScript values, exceptions and \<open>String.prototype.replace\<close>\<close>

text \<open>
  The values a parsed JSON text can be, with \<open>undefined\<close> for a property that is not
  there. Numbers are integers here; a fractional number behaves as a non-zero one in
  every branch below.
\<close>

datatype jsval =
    Undefined | Null | Bool bool | Num int | Str jsstring
  | Arr "jsval list" | Obj "(jsstring \<times> jsval) list"

fun truthy :: "jsval \<Rightarrow> bool" where
  "truthy Undefined = False"
| "truthy Null = False"
| "truthy (Bool b) = b"
| "truthy (Num n) = (n \<noteq> 0)"
| "truthy (Str s) = (s \<noteq> [])"
| "truthy (Arr xs) = True"
| "truthy (Obj fs) = True"

text \<open>
  The exceptions: reading a \<open>const\<close> binding before its declaration has run, a
  property read, assignment or method call on a value that does not allow it, an
  \<open>Error\<close> the code throws itself (with its message), and a failure of the LLM client
  (with its message).
\<close>

datatype exn = ReferenceError string | TypeError string | Error jsstring | Upstream jsstring

text \<open>
  A property read \<open>v.k\<close>: it throws on \<open>null\<close> and \<open>undefined\<close>, and gives
  \<open>undefined\<close> on a value that has no such property (none of the names read below is
  a built-in property of a string, an array, a number or a boolean).
\<close>

fun get_prop :: "jsval \<Rightarrow> string \<Rightarrow> exn + jsval" where
  "get_prop Undefined k = Inl (TypeError k)"
| "get_prop Null k = Inl (TypeError k)"
| "get_prop (Obj fs) k = Inr (case map_of fs (js k) of None \<Rightarrow> Undefined | Some v \<Rightarrow> v)"
| "get_prop v k = Inr Undefined"

text \<open>
  A \<open>const\<close> binding of a block exists from the start of the block and is
  uninitialised until its declaration has run; reading it before throws a
  ReferenceError.
\<close>

datatype 'a binding = Uninitialized | Initialized 'a

fun read_binding :: "string \<Rightarrow> 'a binding \<Rightarrow> exn + 'a" where
  "read_binding name Uninitialized = Inl (ReferenceError name)"
| "read_binding name (Initialized v) = Inr v"

text \<open>\<open>s || d\<close> on a string: the empty string is falsy.\<close>

definition or_str :: "jsstring \<Rightarrow> jsstring \<Rightarrow> jsstring" where
  "or_str s d = (if s = [] then d else s)"

text \<open>
  \<open>JSON.parse\<close>. A JSON text starts, after white space, with the first character of a
  value; any other text is a syntax error, whatever follows. What the parser returns on
  a text that does start like a value is the parameter \<open>p\<close> (\<open>None\<close> for a syntax
  error).
\<close>

definition json_value_start :: "nat \<Rightarrow> bool" where
  "json_value_start c \<longleftrightarrow>
     c = 123 \<or> c = 91 \<or> c = 34 \<or> c = 45 \<or> is_digit c \<or> c = 116 \<or> c = 102 \<or> c = 110"

definition JSON_parse :: "(jsstring \<Rightarrow> jsval option) \<Rightarrow> jsstring \<Rightarrow> jsval option" where
  "JSON_parse p s =
     (case dropWhile (\<lambda>c. c = 9 \<or> c = 10 \<or> c = 13 \<or> c = 32) s of
        [] \<Rightarrow> None
      | c # cs \<Rightarrow> if json_value_start c then p s else None)"

text \<open>
  \<open>GetSubstitution\<close> of the language standard, for a pattern without capture groups:
  in the replacement string \<open>$$\<close> stands for a dollar sign, \<open>$&\<close> for the matched
  text, \<open>$`\<close> for the text before the match and \<open>$'\<close> for the text after it; a dollar
  sign followed by anything else (a digit too, as there is no group) stands for itself.
\<close>

fun getSubstitution :: "jsstring \<Rightarrow> jsstring \<Rightarrow> jsstring \<Rightarrow> jsstring \<Rightarrow> jsstring" where
  "getSubstitution matched pre post [] = []"
| "getSubstitution matched pre post [c] = [c]"
| "getSubstitution matched pre post (c # d # r) =
     (if c = 36 then
        (if d = 36 then 36 # getSubstitution matched pre post r
         else if d = 38 then matched @ getSubstitution matched pre post r
         else if d = 96 then pre @ getSubstitution matched pre post r
         else if d = 39 then post @ getSubstitution matched pre post r
         else c # getSubstitution matched pre post (d # r))
      else c # getSubstitution matched pre post (d # r))"

text \<open>
  \<open>prompt.replace(/\{name\}/g, value)\<close>: the pattern is the literal token
  \<open>{name}\<close>, the matches are found from left to right without overlap, and each is
  replaced by the substitution of \<open>value\<close>. \<open>pre\<close> is the part of the original
  string that has been passed. The text put in is not scanned again.
\<close>

function replace_from :: "jsstring \<Rightarrow> jsstring \<Rightarrow> jsstring \<Rightarrow> jsstring \<Rightarrow> jsstring" where
  "replace_from tok v pre [] = []"
| "replace_from tok v pre (c # cs) =
     (if tok \<noteq> [] \<and> startsWith (c # cs) tok
      then getSubstitution tok pre (drop (length tok) (c # cs)) v
           @ replace_from tok v (pre @ tok) (drop (length tok) (c # cs))
      else c # replace_from tok v (pre @ [c]) cs)"
  by pat_completeness auto
termination
  by (relation "measure (\<lambda>(tok, v, pre, s). length s)") auto

definition replace_g :: "string \<Rightarrow> jsstring \<Rightarrow> jsstring \<Rightarrow> jsstring" where
  "replace_g name v prompt = replace_from (js (''{'' @ name @ ''}'')) v [] prompt"

section \<open>Model validator (modelValidator.js)\<close>

definition confirmedAvailableModels :: "jsstring list" where
  "confirmedAvailableModels =
     [js ''gpt-4o-mini'', js ''gpt-4o'', js ''gpt-4-turbo'', js ''gpt-4'', js ''gpt-3.5-turbo'']"

text \<open>
  \<open>getSafeModel\<close> keeps the three branches of the source. The second and third branch
  differ in the warning they log only; both return the fixed default. A falsy
  \<open>modelId\<close> (the empty string) skips the second branch.
\<close>

definition getSafeModel :: "jsstring \<Rightarrow> jsstring" where
  "getSafeModel modelId =
     (if modelId \<in> set confirmedAvailableModels then modelId
      else if modelId \<noteq> [] \<and> (startsWith modelId (js ''gpt-'') \<or> startsWith modelId (js ''o''))
        then js ''gpt-4o-mini''
      else js ''gpt-4o-mini'')"

text \<open>
  The two regular expressions of \<open>supportsJsonMode\<close>, each as the matcher at one start
  position; the result is capture group 1. \<open>/gpt-4-(\d+)/\<close>: the literal, then a greedy
  run of at least one digit. \<open>/gpt-3.5-turbo(?:-(\d+))?/\<close>: the dot matches any code
  unit but a line terminator; the group is optional, so the match succeeds without it
  and group 1 is then undefined (\<open>None\<close>).
\<close>

definition re_gpt4_version :: "jsstring \<Rightarrow> jsstring option" where
  "re_gpt4_version s =
     (case strip_prefix (js ''gpt-4-'') s of
        None \<Rightarrow> None
      | Some r \<Rightarrow> if takeWhile is_digit r = [] then None else Some (takeWhile is_digit r))"

definition is_line_terminator :: "nat \<Rightarrow> bool" where
  "is_line_terminator c \<longleftrightarrow> c = 10 \<or> c = 13 \<or> c = 0x2028 \<or> c = 0x2029"

definition re_gpt35_version :: "jsstring \<Rightarrow> jsstring option option" where
  "re_gpt35_version s =
     (case strip_prefix (js ''gpt-3'') s of
        None \<Rightarrow> None
      | Some [] \<Rightarrow> None
      | Some (d # r) \<Rightarrow>
          if is_line_terminator d then None
          else (case strip_prefix (js ''5-turbo'') r of
                  None \<Rightarrow> None
                | Some t \<Rightarrow>
                    (case strip_prefix (js ''-'') t of
                       None \<Rightarrow> Some None
                     | Some u \<Rightarrow>
                         if takeWhile is_digit u = [] then Some None
                         else Some (Some (takeWhile is_digit u)))))"

definition supportsJsonMode :: "jsstring \<Rightarrow> bool" where
  "supportsJsonMode modelId =
     (if modelId = [] then False
      else let normalizedId = trim (toLowerCase modelId) in
        if normalizedId = js ''gpt-4o'' \<or> normalizedId = js ''gpt-4o-mini'' then True
        else if normalizedId = js ''gpt-4-turbo'' \<or> normalizedId = js ''gpt-4-turbo-preview''
          then True
        else if startsWith normalizedId (js ''gpt-4-'') then
          (case search re_gpt4_version normalizedId of
             Some version \<Rightarrow> parseInt version \<ge> 1106
           | None \<Rightarrow> False)
        else if normalizedId = js ''gpt-4'' then False
        else if startsWith normalizedId (js ''gpt-3.5-turbo'') then
          (case search re_gpt35_version normalizedId of
             Some (Some version) \<Rightarrow> parseInt version \<ge> 1106
           | _ \<Rightarrow> includes_js normalizedId (js ''1106'') \<or> includes_js normalizedId (js ''0125'')
                  \<or> includes_js normalizedId (js ''16''))
        else if normalizedId = js ''gpt-5'' \<or> normalizedId = js ''gpt-5.1''
                \<or> normalizedId = js ''gpt-5-mini'' \<or> startsWith normalizedId (js ''gpt-5'')
          then True
        else False)"

text \<open>
  The names that \<open>supportsJsonMode\<close> compares its argument with to answer
  \<open>true\<close>, and the function on an arbitrary argument: a falsy one gives \<open>false\<close>
  at the first line, and a truthy value that is not a string has no method
  \<open>toLowerCase\<close>, so that the call throws.
\<close>

definition json_mode_names :: "jsstring list" where
  "json_mode_names =
     [js ''gpt-4o'', js ''gpt-4o-mini'', js ''gpt-4-turbo'', js ''gpt-4-turbo-preview'',
      js ''gpt-5'', js ''gpt-5.1'', js ''gpt-5-mini'']"

definition supportsJsonMode_of :: "jsval \<Rightarrow> exn + bool" where
  "supportsJsonMode_of v =
     (if \<not> truthy v then Inr False
      else (case v of
              Str modelId \<Rightarrow> Inr (supportsJsonMode modelId)
            | _ \<Rightarrow> Inl (TypeError ''toLowerCase'')))"

section \<open>Key and model registry (aiKeysManager.js)\<close>

record model_descriptor =
  model_id :: jsstring
  model_name :: jsstring
  model_provider :: jsstring

definition mk_model :: "string \<Rightarrow> string \<Rightarrow> string \<Rightarrow> model_descriptor" where
  "mk_model i n p = \<lparr>model_id = js i, model_name = js n, model_provider = js p\<rparr>"

text \<open>
  The array literal of the declaration \<open>const DEFAULT_MODELS = [...]\<close>: what the
  array holds when the module has been loaded. The constant stays bound to that one
  array, and the array can change: \<open>loadKeysDB\<close> puts the array itself into the
  default structure it returns, and \<open>addModel\<close> pushes onto the array it has
  loaded. So the contents of the array are state: the field \<open>DEFAULT_MODELS\<close> of a
  \<open>registry\<close> below.
\<close>

definition declared_models :: "model_descriptor list" where
  "declared_models =
     [mk_model ''gpt-5'' ''GPT-5'' ''openai'',
      mk_model ''gpt-5.1'' ''GPT-5.1'' ''openai'',
      mk_model ''gpt-5-mini'' ''GPT-5 Mini'' ''openai'',
      mk_model ''gpt-4o-mini'' ''GPT-4o Mini'' ''openai'',
      mk_model ''gpt-4o'' ''GPT-4o'' ''openai'',
      mk_model ''gpt-4-turbo'' ''GPT-4 Turbo'' ''openai'',
      mk_model ''gpt-3.5-turbo'' ''GPT-3.5 Turbo'' ''openai'',
      mk_model ''claude-3-5-sonnet-20241022'' ''Claude 3.5 Sonnet'' ''anthropic'',
      mk_model ''claude-3-opus-20240229'' ''Claude 3 Opus'' ''anthropic'',
      mk_model ''claude-3-sonnet-20240229'' ''Claude 3 Sonnet'' ''anthropic'',
      mk_model ''claude-3-haiku-20240307'' ''Claude 3 Haiku'' ''anthropic'',
      mk_model ''gemini-2.0-flash-exp'' ''Gemini 2.0 Flash (Experimental)'' ''google'',
      mk_model ''gemini-1.5-pro'' ''Gemini 1.5 Pro'' ''google'',
      mk_model ''gemini-1.5-flash'' ''Gemini 1.5 Flash'' ''google'',
      mk_model ''gemini-pro'' ''Gemini Pro'' ''google'',
      mk_model ''grok-beta'' ''Grok Beta'' ''xai'']"

definition PROVIDER_INFO_keys :: "jsstring list" where
  "PROVIDER_INFO_keys = [js ''openai'', js ''anthropic'', js ''google'', js ''xai'']"

text \<open>
  The file \<open>ai-keys.json\<close>. Its text parses to a JSON value: \<open>null\<close>, a number,
  string or boolean (\<open>Json_scalar\<close>), an array, or an object. Of an object the module
  reads the properties \<open>keys\<close> (a map from a provider to its stored ciphertext string),
  \<open>models\<close> (an array of descriptors) and \<open>activeModel\<close> (a string); each may be
  absent (or \<open>null\<close>, which is falsy too), and one that is there has the type the
  module writes. The elements of an array are never read.

  The state of the registry: the contents of the array \<open>DEFAULT_MODELS\<close>, the parsed
  file (\<open>None\<close> when there is no file, when reading it fails or when its text is not
  JSON: \<open>loadKeysDB\<close> catches that), and whether the file can be written.
\<close>

record keys_db =
  db_keys :: "(jsstring \<times> jsstring) list option"
  db_models :: "model_descriptor list option"
  db_activeModel :: "jsstring option"

datatype file_content = Json_null | Json_scalar | Json_array | Json_object keys_db

record registry =
  DEFAULT_MODELS :: "model_descriptor list"
  keys_file :: "file_content option"
  writable :: bool

text \<open>
  What \<open>loadKeysDB\<close> returns. The \<open>models\<close> of an object is a reference to an
  array: to the array \<open>DEFAULT_MODELS\<close> itself, or to an array of the object's own
  (the one \<open>JSON.parse\<close> has built, or a later copy).
\<close>

datatype models_ref = The_DEFAULT_MODELS | Own_array "model_descriptor list"

record db_object =
  obj_keys :: "(jsstring \<times> jsstring) list option"
  obj_models :: "models_ref option"
  obj_activeModel :: "jsstring option"

datatype db_value = Db_null | Db_scalar | Db_array | Db_object db_object

fun deref :: "registry \<Rightarrow> models_ref \<Rightarrow> model_descriptor list" where
  "deref r The_DEFAULT_MODELS = DEFAULT_MODELS r"
| "deref r (Own_array ms) = ms"

text \<open>\<open>loadKeysDB\<close>: the parsed file, or the default structure.\<close>

definition loadKeysDB :: "registry \<Rightarrow> db_value" where
  "loadKeysDB r =
     (case keys_file r of
        Some Json_null \<Rightarrow> Db_null
      | Some Json_scalar \<Rightarrow> Db_scalar
      | Some Json_array \<Rightarrow> Db_array
      | Some (Json_object f) \<Rightarrow>
          Db_object \<lparr>obj_keys = db_keys f, obj_models = map_option Own_array (db_models f),
                     obj_activeModel = db_activeModel f\<rparr>
      | None \<Rightarrow>
          Db_object \<lparr>obj_keys = Some [], obj_models = Some The_DEFAULT_MODELS,
                     obj_activeModel = Some (js ''gpt-5-mini'')\<rparr>)"

text \<open>
  \<open>JSON.stringify\<close> of a loaded value writes the contents of the array that
  \<open>models\<close> refers to; a property that has been set on an array is not written.
  \<open>saveKeysDB\<close>: a failed write is caught and reported as \<open>false\<close>.
\<close>

fun stringify :: "registry \<Rightarrow> db_value \<Rightarrow> file_content" where
  "stringify r Db_null = Json_null"
| "stringify r Db_scalar = Json_scalar"
| "stringify r Db_array = Json_array"
| "stringify r (Db_object d) =
     Json_object \<lparr>db_keys = obj_keys d, db_models = map_option (deref r) (obj_models d),
                  db_activeModel = obj_activeModel d\<rparr>"

definition saveKeysDB :: "db_value \<Rightarrow> registry \<Rightarrow> bool \<times> registry" where
  "saveKeysDB data r =
     (if writable r then (True, r\<lparr>keys_file := Some (stringify r data)\<rparr>) else (False, r))"

text \<open>
  The properties \<open>keys\<close>, \<open>models\<close> and \<open>activeModel\<close> of a loaded value, for the
  read of property \<open>k\<close>. Reading a property of \<open>null\<close> throws. A number, a string and
  a boolean have none of the three. Of an array, \<open>models\<close> and \<open>activeModel\<close> are
  undefined and \<open>keys\<close> is the method \<open>Array.prototype.keys\<close>: a function, which is
  truthy and has no provider as a property and no enumerable property of its own, so
  that what is read of it is what is read of the \<open>{}\<close> that stands in for an absent
  \<open>keys\<close>.
\<close>

fun properties :: "db_value \<Rightarrow> string \<Rightarrow> exn + db_object" where
  "properties Db_null k = Inl (TypeError k)"
| "properties (Db_object d) k = Inr d"
| "properties v k = Inr \<lparr>obj_keys = None, obj_models = None, obj_activeModel = None\<rparr>"

text \<open>
  An assignment \<open>db.activeModel = v\<close> or \<open>db.models = DEFAULT_MODELS\<close>. The module is
  strict code, where an assignment to a property of \<open>null\<close>, of a number, of a string
  or of a boolean throws. On an array the property is set (and is not part of what
  \<open>JSON.stringify\<close> writes).
\<close>

fun assign_activeModel :: "db_value \<Rightarrow> jsstring \<Rightarrow> exn + db_value" where
  "assign_activeModel (Db_object d) v = Inr (Db_object (d\<lparr>obj_activeModel := Some v\<rparr>))"
| "assign_activeModel Db_array v = Inr Db_array"
| "assign_activeModel db v = Inl (TypeError ''activeModel'')"

fun assign_models :: "db_value \<Rightarrow> models_ref \<Rightarrow> exn + db_value" where
  "assign_models (Db_object d) ms = Inr (Db_object (d\<lparr>obj_models := Some ms\<rparr>))"
| "assign_models Db_array ms = Inr Db_array"
| "assign_models db ms = Inl (TypeError ''models'')"

text \<open>\<open>x || d\<close> on an optional string: absent and empty are both falsy.\<close>

definition or_default :: "jsstring option \<Rightarrow> jsstring \<Rightarrow> jsstring" where
  "or_default x d = (case x of None \<Rightarrow> d | Some s \<Rightarrow> if s = [] then d else s)"

record all_keys =
  ak_models :: "model_descriptor list"
  ak_activeModel :: jsstring
  ak_hasKeys :: bool
  ak_providerKeys :: "(jsstring \<times> bool) list"

definition getAllKeys :: "registry \<Rightarrow> exn + all_keys" where
  "getAllKeys r =
     (let db = loadKeysDB r
      in case properties db ''keys'' of
           Inl err \<Rightarrow> Inl err
         | Inr d \<Rightarrow>
             (let keys = (case obj_keys d of None \<Rightarrow> [] | Some ks \<Rightarrow> ks);
                  providerKeys = map (\<lambda>provider.
                      (provider, (case map_of keys provider of None \<Rightarrow> False | Some k \<Rightarrow> k \<noteq> [])))
                    PROVIDER_INFO_keys;
                  dbModels = (case obj_models d of None \<Rightarrow> [] | Some ms \<Rightarrow> deref r ms);
                  defaultModelIds = set (map model_id (DEFAULT_MODELS r));
                  customModels = filter (\<lambda>m. model_id m \<notin> defaultModelIds) dbModels;
                  mergedModels = DEFAULT_MODELS r @ customModels
              in Inr \<lparr>ak_models = mergedModels,
                      ak_activeModel = or_default (obj_activeModel d) (js ''gpt-5-mini''),
                      ak_hasKeys = (keys \<noteq> []),
                      ak_providerKeys = providerKeys\<rparr>))"

definition getActiveModel :: "registry \<Rightarrow> exn + jsstring" where
  "getActiveModel r =
     (case properties (loadKeysDB r) ''activeModel'' of
        Inl err \<Rightarrow> Inl err
      | Inr d \<Rightarrow> Inr (or_default (obj_activeModel d) (js ''gpt-5-mini'')))"

text \<open>The errors the module throws itself.\<close>

definition Model_not_found :: exn where
  "Model_not_found = Error (js ''Model not found'')"

definition Model_incomplete :: exn where
  "Model_incomplete = Error (js ''Model must have id, name, and provider'')"

definition Model_already_exists :: exn where
  "Model_already_exists = Error (js ''Model already exists'')"

definition Cannot_delete_default_model :: exn where
  "Cannot_delete_default_model = Error (js ''Cannot delete default model'')"

definition setActiveModel :: "jsstring \<Rightarrow> registry \<Rightarrow> exn + (bool \<times> registry)" where
  "setActiveModel modelId r =
     (let db = loadKeysDB r
      in case properties db ''models'' of
           Inl err \<Rightarrow> Inl err
         | Inr d \<Rightarrow>
             (let models = (case obj_models d of None \<Rightarrow> DEFAULT_MODELS r | Some ms \<Rightarrow> deref r ms);
                  modelExists = (\<exists>m \<in> set models. model_id m = modelId)
              in if \<not> modelExists then Inl Model_not_found
                 else (case assign_activeModel db modelId of
                         Inl err \<Rightarrow> Inl err
                       | Inr db \<Rightarrow> Inr (saveKeysDB db r))))"

text \<open>
  \<open>db.models.push(model)\<close>: the array that \<open>models\<close> refers to gets one more
  element. When that array is \<open>DEFAULT_MODELS\<close>, it is the array of the module that
  grows.
\<close>

fun push :: "models_ref \<Rightarrow> model_descriptor \<Rightarrow> db_value \<times> registry \<Rightarrow> db_value \<times> registry" where
  "push The_DEFAULT_MODELS model (db, r) = (db, r\<lparr>DEFAULT_MODELS := DEFAULT_MODELS r @ [model]\<rparr>)"
| "push (Own_array ms) model (Db_object d, r) =
     (Db_object (d\<lparr>obj_models := Some (Own_array (ms @ [model]))\<rparr>), r)"
| "push (Own_array ms) model (db, r) = (db, r)"

text \<open>
  \<open>addModel\<close>. The descriptor is the body of the request; a field that is absent is
  the empty string, which is falsy as \<open>undefined\<close> is. \<open>db.models\<close> is the array of
  the file when the file has one, and else the array \<open>DEFAULT_MODELS\<close>: by the
  assignment at line 220, or already by \<open>loadKeysDB\<close> when there is no file.
\<close>

definition addModel :: "model_descriptor \<Rightarrow> registry \<Rightarrow> exn + (bool \<times> registry)" where
  "addModel model r =
     (if model_id model = [] \<or> model_name model = [] \<or> model_provider model = []
      then Inl Model_incomplete
      else
        (let db = loadKeysDB r
         in case properties db ''models'' of
              Inl err \<Rightarrow> Inl err
            | Inr d \<Rightarrow>
                (case (case obj_models d of
                         Some ms \<Rightarrow> Inr (db, ms)
                       | None \<Rightarrow>
                           (case assign_models db The_DEFAULT_MODELS of
                              Inl err \<Rightarrow> Inl err
                            | Inr db \<Rightarrow> Inr (db, The_DEFAULT_MODELS))) of
                   Inl err \<Rightarrow> Inl err
                 | Inr (db, ms) \<Rightarrow>
                     (let exists = (\<exists>m \<in> set (deref r ms). model_id m = model_id model)
                      in if exists then Inl Model_already_exists
                         else (case push ms model (db, r) of
                                 (db, r) \<Rightarrow> Inr (saveKeysDB db r))))))"

text \<open>
  \<open>deleteModel\<close>: an id of the array \<open>DEFAULT_MODELS\<close> is refused; else the model is
  filtered out of a copy of \<open>db.models\<close>.
\<close>

definition deleteModel :: "jsstring \<Rightarrow> registry \<Rightarrow> exn + (bool \<times> registry)" where
  "deleteModel modelId r =
     (let db = loadKeysDB r;
          isDefault = (\<exists>m \<in> set (DEFAULT_MODELS r). model_id m = modelId)
      in if isDefault then Inl Cannot_delete_default_model
         else (case properties db ''models'' of
                 Inl err \<Rightarrow> Inl err
               | Inr d \<Rightarrow>
                   (case obj_models d of
                      None \<Rightarrow> Inr (True, r)
                    | Some ms \<Rightarrow>
                        (let d = d\<lparr>obj_models :=
                                    Some (Own_array (filter (\<lambda>m. model_id m \<noteq> modelId) (deref r ms)))\<rparr>;
                             d = (if obj_activeModel d = Some modelId
                                  then d\<lparr>obj_activeModel := Some (js ''gpt-5-mini'')\<rparr> else d)
                         in Inr (saveKeysDB (Db_object d) r)))))"

text \<open>
  The models the file holds (none when there is no file, when it does not hold an
  object, or when the object has no \<open>models\<close>), and concrete registries, each with
  the array \<open>DEFAULT_MODELS\<close> as declared: the one before anything has been persisted,
  the same where the file cannot be written, and one whose file was written when the
  built-in list was shorter. \<open>my_model\<close> is a custom model.
\<close>

definition persisted_models :: "registry \<Rightarrow> model_descriptor list" where
  "persisted_models r =
     (case keys_file r of
        Some (Json_object f) \<Rightarrow> (case db_models f of None \<Rightarrow> [] | Some ms \<Rightarrow> ms)
      | _ \<Rightarrow> [])"

definition fresh_registry :: registry where
  "fresh_registry = \<lparr>DEFAULT_MODELS = declared_models, keys_file = None, writable = True\<rparr>"

definition read_only_registry :: registry where
  "read_only_registry = \<lparr>DEFAULT_MODELS = declared_models, keys_file = None, writable = False\<rparr>"

definition stale_registry :: registry where
  "stale_registry =
     \<lparr>DEFAULT_MODELS = declared_models,
      keys_file = Some (Json_object
        \<lparr>db_keys = Some [],
         db_models = Some [mk_model ''gpt-4o-mini'' ''GPT-4o Mini'' ''openai'',
                           mk_model ''gpt-4o'' ''GPT-4o'' ''openai'',
                           mk_model ''my-model'' ''My Model'' ''openai''],
         db_activeModel = Some (js ''gpt-4o-mini'')\<rparr>),
      writable = True\<rparr>"

definition my_model :: model_descriptor where
  "my_model = mk_model ''my-model'' ''My Model'' ''openai''"

section \<open>Server helpers (server.js)\<close>

text \<open>
  \<open>getOpenAI\<close> builds the client from the registry: \<open>getApiKey\<close> reads
  \<open>db.keys?.[provider]\<close> of the loaded value and decrypts the stored key inside a
  \<open>try\<close> (without a key the client gets a dummy key), and \<open>getActiveModel\<close> is
  called. The client itself is the collaborator \<open>env_completion\<close> of a handler; what
  is kept here is whether the call throws.
\<close>

definition getApiKey :: "registry \<Rightarrow> exn + unit" where
  "getApiKey r =
     (case properties (loadKeysDB r) ''keys'' of Inl err \<Rightarrow> Inl err | Inr d \<Rightarrow> Inr ())"

definition getOpenAI :: "registry \<Rightarrow> exn + unit" where
  "getOpenAI r =
     (case getApiKey r of
        Inl err \<Rightarrow> Inl err
      | Inr apiKey \<Rightarrow> (case getActiveModel r of Inl err \<Rightarrow> Inl err | Inr model \<Rightarrow> Inr ()))"

definition getCurrentModel :: "registry \<Rightarrow> exn + jsstring" where
  "getCurrentModel r = getActiveModel r"

text \<open>
  \<open>model || getCurrentModel()\<close> and \<open>modelToUse || getSafeModel(getCurrentModel())\<close>:
  the right operand is evaluated only when the left one is falsy (the empty string).
\<close>

definition model_or_current :: "jsstring \<Rightarrow> registry \<Rightarrow> exn + jsstring" where
  "model_or_current model r = (if model \<noteq> [] then Inr model else getCurrentModel r)"

definition model_or_safe_current :: "jsstring \<Rightarrow> registry \<Rightarrow> exn + jsstring" where
  "model_or_safe_current modelToUse r =
     (if modelToUse \<noteq> [] then Inr modelToUse
      else (case getCurrentModel r of Inl err \<Rightarrow> Inl err | Inr m \<Rightarrow> Inr (getSafeModel m)))"

section \<open>Prompt templates and the handlers of server.js\<close>

text \<open>The Thai literals of the source: "not specified", "none", "no data".\<close>

definition text_not_specified :: jsstring where
  "text_not_specified = [0xE44, 0xE21, 0xE48, 0xE23, 0xE30, 0xE1A, 0xE38]"

definition text_none :: jsstring where
  "text_none = [0xE44, 0xE21, 0xE48, 0xE21, 0xE35]"

definition text_no_data :: jsstring where
  "text_no_data = [0xE44, 0xE21, 0xE48, 0xE21, 0xE35, 0xE02, 0xE49, 0xE2D, 0xE21, 0xE39, 0xE25]"

text \<open>\<open>Array.prototype.join\<close>.\<close>

fun join :: "jsstring \<Rightarrow> jsstring list \<Rightarrow> jsstring" where
  "join sep [] = []"
| "join sep [x] = x"
| "join sep (x # y # zs) = x @ sep @ join sep (y # zs)"

text \<open>
  The fields the handlers read from the request body (for \<open>/api/analyze-answer\<close>:
  from the sanitised copy that \<open>validateAnalyzeAnswerRequest\<close> returns for a valid
  request). A text field that is absent is the empty string, which is falsy as
  \<open>undefined\<close> is; the two counts are integers or absent.
\<close>

record body =
  answer :: jsstring
  objective :: jsstring
  topic :: jsstring
  targetAudience :: jsstring
  desiredInsights :: jsstring
  keyQuestions :: jsstring
  hypothesis :: jsstring
  currentTopic :: jsstring
  customPrompt :: jsstring
  model :: jsstring
  questionCount :: "int option"
  currentQuestionCount :: "int option"
  previousQuestions :: "jsstring list"
  demographicData :: "(jsstring \<times> jsstring) list"

definition demographicText_of :: "(jsstring \<times> jsstring) list \<Rightarrow> jsstring" where
  "demographicText_of dd =
     (if dd = [] then text_no_data
      else join [10] (map (\<lambda>(key, val). key @ js '': '' @ val) dd))"

text \<open>
  \<open>/api/generate-demographic-questions\<close>, lines 563 to 568: six replacements, one
  after the other, each on the result of the one before.
\<close>

definition demographic_prompt :: "jsstring \<Rightarrow> body \<Rightarrow> jsstring" where
  "demographic_prompt template b =
     (let prompt = template;
          prompt = replace_g ''objective'' (or_str (objective b) text_not_specified) prompt;
          prompt = replace_g ''topic'' (or_str (topic b) text_not_specified) prompt;
          prompt = replace_g ''targetAudience'' (or_str (targetAudience b) text_not_specified) prompt;
          prompt = replace_g ''desiredInsights'' (or_str (desiredInsights b) text_not_specified) prompt;
          prompt = replace_g ''keyQuestions'' (or_str (keyQuestions b) text_not_specified) prompt;
          prompt = replace_g ''hypothesis'' (or_str (hypothesis b) text_not_specified) prompt
      in prompt)"

text \<open>
  \<open>/api/generate-first-question\<close>, lines 665 to 678: the map of replacements in the
  order of its keys, and the loop over it. The regular expression built from a key
  escapes the braces of the key; the keys have no other special character, so the
  expression matches the key literally.
\<close>

definition replacements :: "body \<Rightarrow> (jsstring \<times> jsstring) list" where
  "replacements b =
     [(js ''{objective}'', or_str (objective b) text_not_specified),
      (js ''{demographicData}'', demographicText_of (demographicData b)),
      (js ''{previousQuestions}'', text_none),
      (js ''{desiredInsights}'', or_str (desiredInsights b) text_not_specified),
      (js ''{keyQuestions}'', or_str (keyQuestions b) text_not_specified),
      (js ''{hypothesis}'', or_str (hypothesis b) text_not_specified)]"

fun render :: "jsstring \<Rightarrow> (jsstring \<times> jsstring) list \<Rightarrow> jsstring" where
  "render prompt [] = prompt"
| "render prompt ((placeholder, v) # rest) = render (replace_from placeholder v [] prompt) rest"

definition first_question_prompt :: "jsstring \<Rightarrow> body \<Rightarrow> jsstring" where
  "first_question_prompt template b = render template (replacements b)"

text \<open>\<open>/api/analyze-answer\<close>, lines 870 to 877.\<close>

definition analyze_prompt :: "jsstring \<Rightarrow> body \<Rightarrow> jsstring" where
  "analyze_prompt template b =
     (let prompt = template;
          prompt = replace_g ''objective'' (or_str (objective b) text_not_specified) prompt;
          prompt = replace_g ''desiredInsights'' (or_str (desiredInsights b) text_not_specified) prompt;
          prompt = replace_g ''keyQuestions'' (or_str (keyQuestions b) text_not_specified) prompt;
          prompt = replace_g ''hypothesis'' (or_str (hypothesis b) text_not_specified) prompt;
          prompt = replace_g ''demographicData'' (demographicText_of (demographicData b)) prompt;
          prompt = replace_g ''currentTopic'' (or_str (currentTopic b) text_not_specified) prompt;
          prompt = replace_g ''previousQuestions''
                     (or_str (join (js '', '') (previousQuestions b)) text_none) prompt;
          prompt = replace_g ''answer'' (answer b) prompt
      in prompt)"

text \<open>
  The collaborators of a handler: the registry, the prompt templates of the settings
  store (\<open>None\<close> when the store fails or holds none), the LLM client (it returns the
  content of the first choice, or throws) and the parser behind \<open>JSON.parse\<close>.
\<close>

text \<open>
  A request to the LLM client: the model, the system message (each handler has two,
  one for a model with JSON mode and one for a model without), the user message and
  whether \<open>response_format: json_object\<close> is set. The temperature and the token
  limit are constants of the source and are left out.
\<close>

datatype handler = Demographic_questions | First_question | Analyze_answer

record chat_request =
  cr_model :: jsstring
  cr_system :: "handler \<times> bool"
  cr_user :: jsstring
  cr_json_object :: bool

record env =
  env_registry :: registry
  env_interviewPrompt :: "jsstring option"
  env_completion :: "chat_request \<Rightarrow> exn + jsstring option"
  env_parse :: "jsstring \<Rightarrow> jsval option"

text \<open>
  The responses: \<open>Bad_request\<close> is status 400 with an error text, \<open>Server_error\<close>
  status 500 with an error text and a message, \<open>Caught\<close> the response of a handler's
  \<open>catch\<close> block (status 500, the handler's error text and the message of the
  exception). The others are status 200: \<open>Limit_reached m\<close> is the body with
  \<open>success: true\<close>, \<open>nextAction: {type: 'complete', question: ''}\<close> and model
  \<open>m\<close>; \<open>Analysis_result r m\<close> is \<open>{success: true, ...r, model: m}\<close>;
  \<open>First_question_ok q r m\<close> is \<open>{success: true, question: q, reason: r, model: m}\<close>.
\<close>

datatype response =
    Bad_request jsstring
  | Server_error jsstring jsstring
  | Caught jsstring exn
  | Limit_reached jsstring
  | Analysis_result jsval jsstring
  | First_question_ok jsstring jsval jsstring

fun status :: "response \<Rightarrow> nat" where
  "status (Bad_request e) = 400"
| "status (Server_error e m) = 500"
| "status (Caught e x) = 500"
| "status r = 200"

definition no_prompt_template :: response where
  "no_prompt_template = Bad_request
     (js ''No prompt template available. Please configure AI prompts in Settings page first.'')"

definition no_question :: response where
  "no_question = Server_error (js ''AI did not generate a question'')
     (js ''Please try again or check your prompt settings'')"

text \<open>
  \<open>let prompt = customPrompt\<close>, then the template of the settings store when that is
  empty; \<open>None\<close> when there is no template at all.
\<close>

definition choose_prompt :: "jsstring \<Rightarrow> jsstring option \<Rightarrow> jsstring option" where
  "choose_prompt custom stored =
     (if custom \<noteq> [] then Some custom
      else (case stored of None \<Rightarrow> None | Some t \<Rightarrow> if t = [] then None else Some t))"

text \<open>
  \<open>!q || q.trim() === ''\<close> on a value: a truthy value that is not a string has no
  \<open>trim\<close> method, and the call throws.
\<close>

definition blank :: "jsval \<Rightarrow> exn + bool" where
  "blank q =
     (if \<not> truthy q then Inr True
      else (case q of Str t \<Rightarrow> Inr (trim t = []) | _ \<Rightarrow> Inl (TypeError ''trim'')))"

definition limit_reached :: "body \<Rightarrow> bool" where
  "limit_reached b =
     (case questionCount b of
        None \<Rightarrow> False
      | Some q \<Rightarrow> q \<noteq> 0 \<and>
          (case currentQuestionCount b of None \<Rightarrow> False | Some c \<Rightarrow> c \<noteq> 0 \<and> c \<ge> q))"

text \<open>
  \<open>/api/analyze-answer\<close> after the call of the LLM client (lines 906 to 932): the
  reply is parsed (a reply that does not parse leaves \<open>result = {}\<close>), and a
  \<open>probe\<close> or \<open>next_question\<close> action must carry a question.
\<close>

definition analyze_answer_result ::
  "(jsstring \<Rightarrow> jsval option) \<Rightarrow> registry \<Rightarrow> jsstring \<Rightarrow> jsstring \<Rightarrow> exn + response" where
  "analyze_answer_result p reg aiResponse modelToUse =
     (let result = (case JSON_parse p aiResponse of Some v \<Rightarrow> v | None \<Rightarrow> Obj []);
          ok = (case model_or_safe_current modelToUse reg of
                  Inl err \<Rightarrow> Inl err
                | Inr used \<Rightarrow> Inr (Analysis_result result used))
      in case get_prop result ''nextAction'' of
           Inl err \<Rightarrow> Inl err
         | Inr nextAction \<Rightarrow>
             if \<not> truthy nextAction then ok
             else (case get_prop nextAction ''type'' of
                     Inl err \<Rightarrow> Inl err
                   | Inr ty \<Rightarrow>
                       if ty = Str (js ''probe'') \<or> ty = Str (js ''next_question'') then
                         (case get_prop nextAction ''question'' of
                            Inl err \<Rightarrow> Inl err
                          | Inr q \<Rightarrow>
                              (case blank q of
                                 Inl err \<Rightarrow> Inl err
                               | Inr isBlank \<Rightarrow> if isBlank then Inr no_question else ok))
                       else ok))"

text \<open>
  The \<open>try\<close> block of \<open>/api/analyze-answer\<close> from line 824 on, for a request that
  has passed validation. \<open>const modelToUse\<close> is declared in this block at line 881,
  after the check of the question limit; the response of that check (line 848) reads
  it. After the prompt has been rendered the block gets the client (line 879), which
  throws when the registry cannot be read. The result is what the block returns or
  throws, and the requests made to the LLM client.
\<close>

definition analyze_answer_try :: "env \<Rightarrow> body \<Rightarrow> (exn + response) \<times> chat_request list" where
  "analyze_answer_try e b =
     (let reg = env_registry e;
          modelToUse_binding = (Uninitialized :: jsstring binding)
      in if limit_reached b then
           (case read_binding ''modelToUse'' modelToUse_binding of
              Inl err \<Rightarrow> (Inl err, [])
            | Inr m \<Rightarrow>
                (case model_or_safe_current m reg of
                   Inl err \<Rightarrow> (Inl err, [])
                 | Inr used \<Rightarrow> (Inr (Limit_reached used), [])))
         else
           (case choose_prompt (customPrompt b) (env_interviewPrompt e) of
              None \<Rightarrow> (Inr no_prompt_template, [])
            | Some template \<Rightarrow>
                (let prompt = analyze_prompt template b
                 in case getOpenAI reg of
                      Inl err \<Rightarrow> (Inl err, [])
                    | Inr openaiClient \<Rightarrow>
                        (case model_or_current (model b) reg of
                           Inl err \<Rightarrow> (Inl err, [])
                         | Inr requestedModel \<Rightarrow>
                             (let modelToUse = getSafeModel requestedModel;
                                  requestOptions =
                                    \<lparr>cr_model = modelToUse,
                                     cr_system = (Analyze_answer, supportsJsonMode modelToUse),
                                     cr_user = prompt,
                                     cr_json_object = supportsJsonMode modelToUse\<rparr>
                              in case env_completion e requestOptions of
                                   Inl err \<Rightarrow> (Inl err, [requestOptions])
                                 | Inr content \<Rightarrow>
                                     (analyze_answer_result (env_parse e) reg
                                        (or_default content (js ''{}'')) modelToUse,
                                      [requestOptions]))))))"

text \<open>The handler: what the block returns, or the response of its \<open>catch\<close>.\<close>

definition analyze_answer :: "env \<Rightarrow> body \<Rightarrow> response \<times> chat_request list" where
  "analyze_answer e b =
     (case analyze_answer_try e b of
        (Inl err, calls) \<Rightarrow> (Caught (js ''Failed to analyze answer'') err, calls)
      | (Inr r, calls) \<Rightarrow> (r, calls))"

text \<open>
  The regular expressions of \<open>/api/generate-first-question\<close> (lines 740, 746 and 761
  to 763), each as the matcher at one start position that returns capture group 1.
  With the flag \<open>i\<close> a letter of the pattern matches its two ASCII cases (a character
  beyond ASCII never matches an ASCII one). A greedy star gives back what it has taken
  when the rest of the pattern fails.
\<close>

fun strip_prefix_ci :: "jsstring \<Rightarrow> jsstring \<Rightarrow> jsstring option" where
  "strip_prefix_ci [] s = Some s"
| "strip_prefix_ci (p # ps) [] = None"
| "strip_prefix_ci (p # ps) (c # cs) = (if lower_unit c = p then strip_prefix_ci ps cs else None)"

text \<open>\<open>"([^"]+)"\<close> at the end of a pattern.\<close>

definition quoted_capture :: "jsstring \<Rightarrow> jsstring option" where
  "quoted_capture s =
     (case s of
        [] \<Rightarrow> None
      | c # r \<Rightarrow>
          if c = 34 \<and> takeWhile (\<lambda>x. x \<noteq> 34) r \<noteq> [] \<and> dropWhile (\<lambda>x. x \<noteq> 34) r \<noteq> []
          then Some (takeWhile (\<lambda>x. x \<noteq> 34) r) else None)"

text \<open>A greedy \<open>[A]*\<close> followed by the rest \<open>k\<close> of the pattern.\<close>

fun star_then :: "(nat \<Rightarrow> bool) \<Rightarrow> (jsstring \<Rightarrow> jsstring option) \<Rightarrow> jsstring \<Rightarrow> jsstring option" where
  "star_then A k [] = k []"
| "star_then A k (c # cs) =
     (if A c then (case star_then A k cs of Some r \<Rightarrow> Some r | None \<Rightarrow> k (c # cs))
      else k (c # cs))"

text \<open>
  A greedy capture group \<open>([B]+)\<close> or \<open>([B]{lo,hi})\<close> at the end of a pattern: the
  longest run, cut at \<open>hi\<close>.
\<close>

definition capture_plus :: "(nat \<Rightarrow> bool) \<Rightarrow> jsstring \<Rightarrow> jsstring option" where
  "capture_plus B s = (if takeWhile B s = [] then None else Some (takeWhile B s))"

definition capture_range :: "(nat \<Rightarrow> bool) \<Rightarrow> nat \<Rightarrow> nat \<Rightarrow> jsstring \<Rightarrow> jsstring option" where
  "capture_range B lo hi s =
     (if length (takeWhile B s) < lo then None else Some (take hi (takeWhile B s)))"

definition quoted_question :: jsstring where
  "quoted_question = 34 # js ''question'' @ [34]"

definition thai_question :: jsstring where
  "thai_question = [0xE04, 0xE33, 0xE16, 0xE32, 0xE21]"

text \<open>\<open>/"question":\s*"([^"]+)"/\<close>\<close>

definition re_question_1 :: "jsstring \<Rightarrow> jsstring option" where
  "re_question_1 s =
     (case strip_prefix (quoted_question @ js '':'') s of
        None \<Rightarrow> None
      | Some r \<Rightarrow> quoted_capture (dropWhile is_ws r))"

text \<open>\<open>/"question"\s*:\s*"([^"]+)"/\<close>, and the same with the flag \<open>i\<close>.\<close>

definition colon_then_quoted :: "jsstring \<Rightarrow> jsstring option" where
  "colon_then_quoted r =
     (case dropWhile is_ws r of
        [] \<Rightarrow> None
      | c # t \<Rightarrow> if c = 58 then quoted_capture (dropWhile is_ws t) else None)"

definition re_question_2 :: "jsstring \<Rightarrow> jsstring option" where
  "re_question_2 s =
     (case strip_prefix quoted_question s of None \<Rightarrow> None | Some r \<Rightarrow> colon_then_quoted r)"

definition re_question_2i :: "jsstring \<Rightarrow> jsstring option" where
  "re_question_2i s =
     (case strip_prefix_ci quoted_question s of None \<Rightarrow> None | Some r \<Rightarrow> colon_then_quoted r)"

text \<open>\<open>/question["\s:]*([^"}\n]+)/i\<close> and \<open>/question["\s:]*([^"}\n]{20,200})/i\<close>\<close>

definition label_sep :: "nat \<Rightarrow> bool" where
  "label_sep c \<longleftrightarrow> c = 34 \<or> is_ws c \<or> c = 58"

definition value_unit :: "nat \<Rightarrow> bool" where
  "value_unit c \<longleftrightarrow> c \<noteq> 34 \<and> c \<noteq> 125 \<and> c \<noteq> 10"

definition re_question_3 :: "jsstring \<Rightarrow> jsstring option" where
  "re_question_3 s =
     (case strip_prefix_ci (js ''question'') s of
        None \<Rightarrow> None
      | Some r \<Rightarrow> star_then label_sep (capture_plus value_unit) r)"

definition re_question_4 :: "jsstring \<Rightarrow> jsstring option" where
  "re_question_4 s =
     (case strip_prefix_ci (js ''question'') s of
        None \<Rightarrow> None
      | Some r \<Rightarrow> star_then label_sep (capture_range value_unit 20 200) r)"

text \<open>\<open>/(?:<the Thai word for question>|question)[:"\s]*([^\n"}{]{20,200})/i\<close>\<close>

definition value_unit' :: "nat \<Rightarrow> bool" where
  "value_unit' c \<longleftrightarrow> c \<noteq> 10 \<and> c \<noteq> 34 \<and> c \<noteq> 125 \<and> c \<noteq> 123"

definition re_question_5 :: "jsstring \<Rightarrow> jsstring option" where
  "re_question_5 s =
     (let rest = (\<lambda>r. star_then label_sep (capture_range value_unit' 20 200) r);
          first = (case strip_prefix_ci thai_question s of None \<Rightarrow> None | Some r \<Rightarrow> rest r)
      in case first of
           Some cap \<Rightarrow> Some cap
         | None \<Rightarrow> (case strip_prefix_ci (js ''question'') s of None \<Rightarrow> None | Some r \<Rightarrow> rest r))"

text \<open>
  The \<open>catch\<close> of \<open>JSON.parse\<close> (lines 736 to 752): \<open>result\<close> is \<open>{}\<close>, and gets a
  \<open>question\<close> from the first two expressions (either of them) or else from the third,
  whose capture is trimmed.
\<close>

definition recovered_result :: "jsstring \<Rightarrow> jsval" where
  "recovered_result aiResponse =
     (case (case search re_question_1 aiResponse of
              Some m \<Rightarrow> Some m
            | None \<Rightarrow> search re_question_2 aiResponse) of
        Some cap \<Rightarrow> Obj [(js ''question'', Str cap)]
      | None \<Rightarrow>
          (case search re_question_3 aiResponse of
             Some cap \<Rightarrow> Obj [(js ''question'', Str (trim cap))]
           | None \<Rightarrow> Obj []))"

text \<open>\<open>result.a || result.b || ... || d\<close>: the first truthy property, else \<open>d\<close>.\<close>

fun first_truthy :: "jsval \<Rightarrow> string list \<Rightarrow> jsval \<Rightarrow> exn + jsval" where
  "first_truthy result [] d = Inr d"
| "first_truthy result (k # ks) d =
     (case get_prop result k of
        Inl err \<Rightarrow> Inl err
      | Inr v \<Rightarrow> if truthy v then Inr v else first_truthy result ks d)"

text \<open>
  The loop over \<open>questionPatterns\<close> (lines 766 to 773): the first pattern that matches
  gives the question, trimmed, and ends the loop.
\<close>

fun try_patterns :: "(jsstring \<Rightarrow> jsstring option) list \<Rightarrow> jsstring \<Rightarrow> jsval \<Rightarrow> jsval" where
  "try_patterns [] aiResponse question = question"
| "try_patterns (pattern # rest) aiResponse question =
     (case search pattern aiResponse of
        Some cap \<Rightarrow> Str (trim cap)
      | None \<Rightarrow> try_patterns rest aiResponse question)"

definition questionPatterns :: "(jsstring \<Rightarrow> jsstring option) list" where
  "questionPatterns = [re_question_2i, re_question_4, re_question_5]"

text \<open>
  \<open>/api/generate-first-question\<close> after the call of the LLM client (lines 728 to
  802).
\<close>

definition first_question_result ::
  "(jsstring \<Rightarrow> jsval option) \<Rightarrow> registry \<Rightarrow> jsstring \<Rightarrow> jsstring \<Rightarrow> exn + response" where
  "first_question_result p reg aiResponse modelToUse =
     (let result = (case JSON_parse p aiResponse of
                      Some v \<Rightarrow> v
                    | None \<Rightarrow> recovered_result aiResponse)
      in case first_truthy result [''question'', ''Question'', ''questionText'', ''text''] (Str []) of
           Inl err \<Rightarrow> Inl err
         | Inr question \<Rightarrow>
             (case blank question of
                Inl err \<Rightarrow> Inl err
              | Inr isBlank \<Rightarrow>
                  (let question = (if isBlank then try_patterns questionPatterns aiResponse question
                                   else question)
                   in case blank question of
                        Inl err \<Rightarrow> Inl err
                      | Inr stillBlank \<Rightarrow>
                          if stillBlank then Inr no_question
                          else (case question of
                                  Str q \<Rightarrow>
                                    (case first_truthy result [''reason'', ''Reason'']
                                            (Str (js ''Generated by AI based on objective and demographic data'')) of
                                       Inl err \<Rightarrow> Inl err
                                     | Inr reason \<Rightarrow>
                                         (case model_or_safe_current modelToUse reg of
                                            Inl err \<Rightarrow> Inl err
                                          | Inr used \<Rightarrow>
                                              Inr (First_question_ok (trim q) reason used)))
                                | _ \<Rightarrow> Inl (TypeError ''trim'')))))"

text \<open>The \<open>try\<close> block of \<open>/api/generate-first-question\<close> and the handler.\<close>

definition first_question_try :: "env \<Rightarrow> body \<Rightarrow> (exn + response) \<times> chat_request list" where
  "first_question_try e b =
     (let reg = env_registry e
      in if objective b = [] then (Inr (Bad_request (js ''Objective is required'')), [])
         else
           (case choose_prompt (customPrompt b) (env_interviewPrompt e) of
              None \<Rightarrow> (Inr no_prompt_template, [])
            | Some template \<Rightarrow>
                (let prompt = first_question_prompt template b
                 in case getOpenAI reg of
                      Inl err \<Rightarrow> (Inl err, [])
                    | Inr openaiClient \<Rightarrow>
                        (case model_or_current (model b) reg of
                           Inl err \<Rightarrow> (Inl err, [])
                         | Inr requestedModel \<Rightarrow>
                             (let modelToUse = getSafeModel requestedModel;
                                  requestOptions =
                                    \<lparr>cr_model = modelToUse,
                                     cr_system = (First_question, supportsJsonMode modelToUse),
                                     cr_user = prompt,
                                     cr_json_object = supportsJsonMode modelToUse\<rparr>
                              in case env_completion e requestOptions of
                                   Inl err \<Rightarrow> (Inl err, [requestOptions])
                                 | Inr content \<Rightarrow>
                                     (first_question_result (env_parse e) reg
                                        (or_default content (js ''{}'')) modelToUse,
                                      [requestOptions]))))))"

definition first_question :: "env \<Rightarrow> body \<Rightarrow> response \<times> chat_request list" where
  "first_question e b =
     (case first_question_try e b of
        (Inl err, calls) \<Rightarrow> (Caught (js ''Failed to generate first question'') err, calls)
      | (Inr r, calls) \<Rightarrow> (r, calls))"

text \<open>
  Concrete inputs: a request body with every field absent, the reply of the
  specification's recovery example (the text \<open>question: "What motivates your choice?"\<close>
  with no braces around it), the reason the handler gives when the reply has none, and
  collaborators whose LLM client answers every request with one fixed reply.
\<close>

definition empty_body :: body where
  "empty_body =
     \<lparr>answer = [], objective = [], topic = [], targetAudience = [], desiredInsights = [],
      keyQuestions = [], hypothesis = [], currentTopic = [], customPrompt = [], model = [],
      questionCount = None, currentQuestionCount = None, previousQuestions = [],
      demographicData = []\<rparr>"



















section \<open>Credential vault (cryptoUtils.js)\<close>

text \<open>
  \<open>encrypt\<close> hands the text to the cipher as UTF-8 and returns the initialisation
  vector, the authentication tag and the ciphertext as hexadecimal strings; \<open>decrypt\<close>
  reads the three strings back and returns the plaintext decoded from UTF-8. Bytes
  are natural numbers below 256.

  The UTF-8 encoding of a string: a surrogate pair is one code point, and a surrogate
  without its partner is encoded as U+FFFD (bytes EF BF BD).
\<close>

type_synonym bytes = "nat list"

definition is_high :: "nat \<Rightarrow> bool" where "is_high c \<longleftrightarrow> 0xD800 \<le> c \<and> c \<le> 0xDBFF"
definition is_low :: "nat \<Rightarrow> bool" where "is_low c \<longleftrightarrow> 0xDC00 \<le> c \<and> c \<le> 0xDFFF"

definition encode_cp :: "nat \<Rightarrow> bytes" where
  "encode_cp cp =
     (if cp < 0x80 then [cp]
      else if cp < 0x800 then [0xC0 + cp div 64, 0x80 + cp mod 64]
      else if cp < 0x10000 then [0xE0 + cp div 4096, 0x80 + (cp div 64) mod 64, 0x80 + cp mod 64]
      else [0xF0 + cp div 262144, 0x80 + (cp div 4096) mod 64, 0x80 + (cp div 64) mod 64,
            0x80 + cp mod 64])"

fun utf8_encode :: "jsstring \<Rightarrow> bytes" where
  "utf8_encode [] = []"
| "utf8_encode [c] = (if is_high c \<or> is_low c then [0xEF, 0xBF, 0xBD] else encode_cp c)"
| "utf8_encode (h # l # r) =
     (if is_high h \<and> is_low l
        then encode_cp (0x10000 + (h - 0xD800) * 1024 + (l - 0xDC00)) @ utf8_encode r
      else if is_high h \<or> is_low h then [0xEF, 0xBF, 0xBD] @ utf8_encode (l # r)
      else encode_cp h @ utf8_encode (l # r))"

text \<open>
  The UTF-8 decoder: a code point of up to 16 bits is one code unit, a larger one a
  surrogate pair; every maximal ill-formed part of the input becomes U+FFFD.
\<close>

definition is_continuation :: "nat \<Rightarrow> bool" where "is_continuation b \<longleftrightarrow> 0x80 \<le> b \<and> b \<le> 0xBF"

definition utf16_units :: "nat \<Rightarrow> jsstring" where
  "utf16_units cp = (if cp < 0x10000 then [cp]
               else [0xD800 + (cp - 0x10000) div 1024, 0xDC00 + (cp - 0x10000) mod 1024])"

fun utf8_decode :: "bytes \<Rightarrow> jsstring" where
  "utf8_decode [] = []"
| "utf8_decode (b # bs) =
     (if b < 0x80 then b # utf8_decode bs
      else if 0xC2 \<le> b \<and> b \<le> 0xDF then
        (case bs of
           [] \<Rightarrow> [0xFFFD]
         | c # r \<Rightarrow>
             if is_continuation c then ((b - 0xC0) * 64 + (c - 0x80)) # utf8_decode r
             else 0xFFFD # utf8_decode bs)
      else if 0xE0 \<le> b \<and> b \<le> 0xEF then
        (case bs of
           [] \<Rightarrow> [0xFFFD]
         | c # r \<Rightarrow>
             if (if b = 0xE0 then 0xA0 else 0x80) \<le> c \<and> c \<le> (if b = 0xED then 0x9F else 0xBF) then
               (case r of
                  [] \<Rightarrow> [0xFFFD]
                | d # r2 \<Rightarrow>
                    if is_continuation d
                    then ((b - 0xE0) * 4096 + (c - 0x80) * 64 + (d - 0x80)) # utf8_decode r2
                    else 0xFFFD # utf8_decode r)
             else 0xFFFD # utf8_decode bs)
      else if 0xF0 \<le> b \<and> b \<le> 0xF4 then
        (case bs of
           [] \<Rightarrow> [0xFFFD]
         | c # r \<Rightarrow>
             if (if b = 0xF0 then 0x90 else 0x80) \<le> c \<and> c \<le> (if b = 0xF4 then 0x8F else 0xBF) then
               (case r of
                  [] \<Rightarrow> [0xFFFD]
                | d # r2 \<Rightarrow>
                    if is_continuation d then
                      (case r2 of
                         [] \<Rightarrow> [0xFFFD]
                       | e # r3 \<Rightarrow>
                           if is_continuation e
                           then utf16_units ((b - 0xF0) * 262144 + (c - 0x80) * 4096 + (d - 0x80) * 64
                                       + (e - 0x80)) @ utf8_decode r3
                           else 0xFFFD # utf8_decode r2)
                    else 0xFFFD # utf8_decode r)
             else 0xFFFD # utf8_decode bs)
      else 0xFFFD # utf8_decode bs)"

text \<open>A string without an unpaired surrogate (and with code units of 16 bits).\<close>

fun well_formed :: "jsstring \<Rightarrow> bool" where
  "well_formed [] = True"
| "well_formed [c] = (c < 0x10000 \<and> \<not> is_high c \<and> \<not> is_low c)"
| "well_formed (h # l # r) =
     (if is_high h then is_low l \<and> well_formed r
      else \<not> is_low h \<and> h < 0x10000 \<and> well_formed (l # r))"

text \<open>
  \<open>Buffer.prototype.toString('hex')\<close> and \<open>Buffer.from(s, 'hex')\<close>: two lower-case
  digits per byte; decoding takes pairs of digits (of either case) and stops at the
  first pair that is not hexadecimal.
\<close>

definition is_bytes :: "bytes \<Rightarrow> bool" where
  "is_bytes bs = list_all (\<lambda>b. b < 256) bs"

definition hex_digit :: "nat \<Rightarrow> nat" where
  "hex_digit d = (if d < 10 then 48 + d else 87 + d)"

definition hex_encode :: "bytes \<Rightarrow> jsstring" where
  "hex_encode bs = concat (map (\<lambda>b. [hex_digit (b div 16), hex_digit (b mod 16)]) bs)"

definition hex_value :: "nat \<Rightarrow> nat option" where
  "hex_value c =
     (if 48 \<le> c \<and> c \<le> 57 then Some (c - 48)
      else if 97 \<le> c \<and> c \<le> 102 then Some (c - 87)
      else if 65 \<le> c \<and> c \<le> 70 then Some (c - 55)
      else None)"

fun hex_decode :: "jsstring \<Rightarrow> bytes" where
  "hex_decode (a # b # r) =
     (case hex_value a of
        None \<Rightarrow> []
      | Some x \<Rightarrow> (case hex_value b of None \<Rightarrow> [] | Some y \<Rightarrow> (16 * x + y) # hex_decode r))"
| "hex_decode r = []"

text \<open>
  The primitives of the platform's \<open>crypto\<close> module are parameters:
  \<open>scryptSync password salt keylen\<close>, AES-256-GCM encryption of a plaintext under a
  key and an initialisation vector (giving the ciphertext and the tag, or throwing),
  and decryption under a key, a vector and a tag (giving the plaintext, or throwing,
  as it does when the tag does not verify).
\<close>

record crypto =
  scryptSync :: "jsstring \<Rightarrow> jsstring \<Rightarrow> nat \<Rightarrow> bytes"
  gcm_encrypt :: "bytes \<Rightarrow> bytes \<Rightarrow> bytes \<Rightarrow> (bytes \<times> bytes) option"
  gcm_decrypt :: "bytes \<Rightarrow> bytes \<Rightarrow> bytes \<Rightarrow> bytes \<Rightarrow> bytes option"

record encrypted_data =
  iv :: jsstring
  authTag :: jsstring
  encrypted :: jsstring

datatype crypto_error = Failed_to_encrypt_data | Failed_to_decrypt_data

text \<open>
  \<open>decipher.update(encrypted, 'hex', 'utf8')\<close> decodes the ciphertext itself: it
  throws on a string with an odd number of characters, and else decodes as
  \<open>Buffer.from\<close> does.
\<close>

definition update_hex :: "jsstring \<Rightarrow> bytes option" where
  "update_hex s = (if odd (length s) then None else Some (hex_decode s))"

text \<open>
  \<open>encrypt\<close> and \<open>decrypt\<close>. \<open>randomBytes\<close> is what \<open>crypto.randomBytes(16)\<close>
  returns in this call. Whatever is thrown inside is caught and thrown again as
  "Failed to encrypt data" or "Failed to decrypt data".
\<close>

definition encrypt :: "crypto \<Rightarrow> bytes \<Rightarrow> jsstring \<Rightarrow> jsstring \<Rightarrow> crypto_error + encrypted_data" where
  "encrypt lib randomBytes text masterKey =
     (let key = scryptSync lib masterKey (js ''salt'') 32
      in case gcm_encrypt lib key randomBytes (utf8_encode text) of
           None \<Rightarrow> Inl Failed_to_encrypt_data
         | Some (ciphertext, tag) \<Rightarrow>
             Inr \<lparr>iv = hex_encode randomBytes, authTag = hex_encode tag,
                  encrypted = hex_encode ciphertext\<rparr>)"

definition decrypt :: "crypto \<Rightarrow> encrypted_data \<Rightarrow> jsstring \<Rightarrow> crypto_error + jsstring" where
  "decrypt lib encryptedData masterKey =
     (let key = scryptSync lib masterKey (js ''salt'') 32
      in case update_hex (encrypted encryptedData) of
           None \<Rightarrow> Inl Failed_to_decrypt_data
         | Some ciphertext \<Rightarrow>
             (case gcm_decrypt lib key (hex_decode (iv encryptedData))
                     (hex_decode (authTag encryptedData)) ciphertext of
                None \<Rightarrow> Inl Failed_to_decrypt_data
              | Some plaintext \<Rightarrow> Inr (utf8_decode plaintext)))"

text \<open>
  What the round trip needs of the platform: \<open>scryptSync\<close> returns a key of the
  length asked for, and decryption under the same 32-byte key, 16-byte vector and tag
  gives back what was encrypted. \<open>toy_crypto\<close> is a stand-in that has these
  properties (it does not encrypt).
\<close>

definition crypto_ok :: "crypto \<Rightarrow> bool" where
  "crypto_ok lib \<longleftrightarrow>
     (\<forall>password salt n. length (scryptSync lib password salt n) = n
                         \<and> is_bytes (scryptSync lib password salt n))
     \<and> (\<forall>key nonce plaintext.
           length key = 32 \<and> is_bytes key \<and> length nonce = 16 \<and> is_bytes nonce \<and> is_bytes plaintext
           \<longrightarrow> (\<exists>ciphertext tag.
                  gcm_encrypt lib key nonce plaintext = Some (ciphertext, tag)
                  \<and> is_bytes ciphertext \<and> is_bytes tag
                  \<and> gcm_decrypt lib key nonce tag ciphertext = Some plaintext))"

definition toy_crypto :: crypto where
  "toy_crypto =
     \<lparr>scryptSync = (\<lambda>password salt n. replicate n 0),
      gcm_encrypt = (\<lambda>key nonce plaintext. Some (plaintext, replicate 16 0)),
      gcm_decrypt = (\<lambda>key nonce tag ciphertext.
                       if tag = replicate 16 0 then Some ciphertext else None)\<rparr>"

section \<open>Properties\<close>

lemma js_simps [simp]: "js [] = []" "js (c # cs) = of_char c # js cs"
  by (simp_all add: js_def)

subsection \<open>Reading the registry\<close>

lemma properties_cases:
  "properties (loadKeysDB r) k =
     (if keys_file r = Some Json_null then Inl (TypeError k)
      else Inr (case loadKeysDB r of
                  Db_object d \<Rightarrow> d
                | _ \<Rightarrow> \<lparr>obj_keys = None, obj_models = None, obj_activeModel = None\<rparr>))"
  by (simp add: loadKeysDB_def split: option.splits file_content.splits)

lemma getActiveModel_cases:
  "getActiveModel r =
     (if keys_file r = Some Json_null then Inl (TypeError ''activeModel'')
      else Inr (case keys_file r of
                  Some (Json_object f) \<Rightarrow> or_default (db_activeModel f) (js ''gpt-5-mini'')
                | _ \<Rightarrow> js ''gpt-5-mini''))"
  by (simp add: getActiveModel_def loadKeysDB_def or_default_def
      split: option.splits file_content.splits)

lemma getOpenAI_cases:
  "getOpenAI r = (if keys_file r = Some Json_null then Inl (TypeError ''keys'') else Inr ())"
  by (simp add: getOpenAI_def getApiKey_def properties_cases getActiveModel_cases)

lemma model_or_current_readable:
  "keys_file r \<noteq> Some Json_null \<Longrightarrow> \<exists>m. model_or_current requested r = Inr m"
  by (simp add: model_or_current_def getCurrentModel_def getActiveModel_cases)

subsection \<open>The model validator\<close>

lemma getSafeModel_cases:
  "getSafeModel m = (if m \<in> set confirmedAvailableModels then m else js ''gpt-4o-mini'')"
  by (simp add: getSafeModel_def)

lemma getSafeModel_confirmed: "getSafeModel m \<in> set confirmedAvailableModels"
  by (simp add: getSafeModel_cases) (simp add: confirmedAvailableModels_def)

text \<open>
  C7. \<open>getSafeModel\<close> returns every identifier of the allow-list unchanged and the
  fixed default \<open>gpt-4o-mini\<close> for every other input, whether it looks like a provider's
  name (\<open>gpt-5-mini\<close>) or not (\<open>totally-unknown-123\<close>).
\<close>

theorem getSafeModel_allow_list:
  "set confirmedAvailableModels =
     {js ''gpt-4o-mini'', js ''gpt-4o'', js ''gpt-4-turbo'', js ''gpt-4'', js ''gpt-3.5-turbo''}
   \<and> (\<forall>m. m \<in> set confirmedAvailableModels \<longrightarrow> getSafeModel m = m)
   \<and> (\<forall>m. m \<notin> set confirmedAvailableModels \<longrightarrow> getSafeModel m = js ''gpt-4o-mini'')
   \<and> getSafeModel (js ''gpt-5-mini'') = js ''gpt-4o-mini''
   \<and> getSafeModel (js ''totally-unknown-123'') = js ''gpt-4o-mini''"
  by (simp add: getSafeModel_cases) (simp add: confirmedAvailableModels_def)

theorem getSafeModel_allow_list_witness:
  "js ''gpt-4-turbo'' \<in> set confirmedAvailableModels
   \<and> getSafeModel (js ''gpt-4-turbo'') = js ''gpt-4-turbo''
   \<and> js ''claude-3-opus-20240229'' \<notin> set confirmedAvailableModels
   \<and> getSafeModel (js ''claude-3-opus-20240229'') = js ''gpt-4o-mini''"
proof -
  have a: "js ''gpt-4-turbo'' \<in> set confirmedAvailableModels"
    by (simp add: confirmedAvailableModels_def)
  have b: "js ''claude-3-opus-20240229'' \<notin> set confirmedAvailableModels"
    by (simp add: confirmedAvailableModels_def)
  from getSafeModel_allow_list a b show ?thesis by blast
qed

lemma startsWith_appendD: "startsWith s (p @ q) \<Longrightarrow> startsWith s p"
  by (induction s p rule: startsWith.induct) auto

lemmas string_fn_defs =
  trim_def toLowerCase_def lower_unit_def is_ws_def is_digit_def parseInt_def
  is_line_terminator_def

lemma supportsJsonMode_needs_gpt:
  assumes "\<not> startsWith (trim (toLowerCase m)) (js ''gpt-'')"
  shows "\<not> supportsJsonMode m"
proof -
  let ?n = "trim (toLowerCase m)"
  have a: "?n \<noteq> js ''gpt-4o''" "?n \<noteq> js ''gpt-4o-mini''" "?n \<noteq> js ''gpt-4-turbo''"
    "?n \<noteq> js ''gpt-4-turbo-preview''" "?n \<noteq> js ''gpt-5''" "?n \<noteq> js ''gpt-5.1''"
    "?n \<noteq> js ''gpt-5-mini''"
    using assms by auto
  have b: "\<not> startsWith ?n (js ''gpt-4-'')" "\<not> startsWith ?n (js ''gpt-3.5-turbo'')"
    "\<not> startsWith ?n (js ''gpt-5'')"
    using assms startsWith_appendD [of ?n "js ''gpt-''" "js ''4-''"]
      startsWith_appendD [of ?n "js ''gpt-''" "js ''3.5-turbo''"]
      startsWith_appendD [of ?n "js ''gpt-''" "js ''5''"] by auto
  show ?thesis using a b by (simp add: supportsJsonMode_def Let_def)
qed

lemma supportsJsonMode_base_gpt4:
  "trim (toLowerCase m) = js ''gpt-4'' \<Longrightarrow> \<not> supportsJsonMode m"
  by (simp add: supportsJsonMode_def Let_def)

lemma supportsJsonMode_base_gpt35:
  "trim (toLowerCase m) = js ''gpt-3.5-turbo'' \<Longrightarrow> \<not> supportsJsonMode m"
  by (simp add: supportsJsonMode_def Let_def re_gpt35_version_def is_line_terminator_def)

lemma startsWith_iff: "startsWith s p \<longleftrightarrow> (\<exists>r. s = p @ r)"
  by (induction s p rule: startsWith.induct) auto

lemma strip_prefix_Some: "strip_prefix p s = Some r \<Longrightarrow> s = p @ r"
  by (induction p s rule: strip_prefix.induct) (auto split: if_splits)

lemma takeWhile_digit_free: "\<not> list_ex is_digit s \<Longrightarrow> takeWhile is_digit s = []"
  by (cases s) auto

lemma re_gpt4_version_digit_free: "\<not> list_ex is_digit s \<Longrightarrow> re_gpt4_version s = None"
proof -
  assume a: "\<not> list_ex is_digit s"
  have "strip_prefix (js ''gpt-4-'') s = None"
  proof (cases "strip_prefix (js ''gpt-4-'') s")
    case None
    then show ?thesis .
  next
    case (Some r)
    from strip_prefix_Some [OF this] have "52 \<in> set s" by simp
    moreover have "is_digit 52" by (simp add: is_digit_def)
    ultimately have "list_ex is_digit s" unfolding list_ex_iff by blast
    with a show ?thesis by simp
  qed
  then show ?thesis by (simp add: re_gpt4_version_def)
qed

lemma search_gpt4_digit_free: "\<not> list_ex is_digit s \<Longrightarrow> search re_gpt4_version s = None"
  by (induction s) (simp_all add: re_gpt4_version_digit_free)

lemma search_gpt4_unversioned:
  assumes "\<not> list_ex is_digit s"
  shows "search re_gpt4_version (js ''gpt-4'' @ s) = None"
proof -
  have 0: "re_gpt4_version (js ''gpt-4'' @ s) = None"
    using assms by (cases s) (auto simp: re_gpt4_version_def takeWhile_digit_free)
  have 1: "re_gpt4_version (js ''pt-4'' @ s) = None" "re_gpt4_version (js ''t-4'' @ s) = None"
    "re_gpt4_version (js ''-4'' @ s) = None" "re_gpt4_version (js ''4'' @ s) = None"
    by (simp_all add: re_gpt4_version_def)
  show ?thesis
    using 0 1 search_gpt4_digit_free [OF assms] by (cases s) simp_all
qed

lemma includes_js_hd: "includes_js s (d # p) \<Longrightarrow> d \<in> set s"
  by (induction s) auto

lemma includes_digit_free:
  "\<not> list_ex is_digit s \<Longrightarrow> is_digit d \<Longrightarrow> \<not> includes_js s (d # p)"
  using includes_js_hd [of s d p] by (auto simp: list_ex_iff)

lemma supportsJsonMode_gpt5:
  assumes "startsWith (trim (toLowerCase m)) (js ''gpt-5'')"
  shows "supportsJsonMode m"
proof -
  obtain r where n: "trim (toLowerCase m) = js ''gpt-5'' @ r"
    using assms unfolding startsWith_iff by blast
  have "m \<noteq> []" using n by (auto simp: trim_def toLowerCase_def)
  then show ?thesis using n by (simp add: supportsJsonMode_def Let_def)
qed

lemma supportsJsonMode_gpt4_unversioned:
  assumes "trim (toLowerCase m) = js ''gpt-4'' @ s" "\<not> list_ex is_digit s" "supportsJsonMode m"
  shows "trim (toLowerCase m) \<in>
    {js ''gpt-4o'', js ''gpt-4o-mini'', js ''gpt-4-turbo'', js ''gpt-4-turbo-preview''}"
proof -
  have "search re_gpt4_version (trim (toLowerCase m)) = None"
    unfolding assms(1) using assms(2) by (rule search_gpt4_unversioned)
  then show ?thesis
    using assms(1,3) by (auto simp: supportsJsonMode_def Let_def split: if_splits)
qed

lemma supportsJsonMode_gpt35_unversioned:
  assumes "trim (toLowerCase m) = js ''gpt-3.5-turbo'' @ s" "\<not> list_ex is_digit s"
  shows "\<not> supportsJsonMode m"
proof -
  have v: "re_gpt35_version (js ''gpt-3.5-turbo'' @ s) = Some None"
    using assms(2)
    by (cases s) (auto simp: re_gpt35_version_def is_line_terminator_def takeWhile_digit_free)
  have a: "search re_gpt35_version (js ''gpt-3.5-turbo'' @ s) = Some None"
    using v by simp
  have d: "is_digit 49" "is_digit 48" by (simp_all add: is_digit_def)
  have i: "\<not> includes_js s (js ''1106'')" "\<not> includes_js s (js ''0125'')"
    "\<not> includes_js s (js ''16'')"
    using includes_digit_free [OF assms(2)] d by simp_all
  have b: "\<not> includes_js (js ''gpt-3.5-turbo'' @ s) (js ''1106'')"
    "\<not> includes_js (js ''gpt-3.5-turbo'' @ s) (js ''0125'')"
    "\<not> includes_js (js ''gpt-3.5-turbo'' @ s) (js ''16'')"
    using i by (cases s; simp)+
  show ?thesis
    using a b unfolding supportsJsonMode_def Let_def assms(1) by simp
qed

lemma supportsJsonMode_other_family:
  assumes "\<not> startsWith (trim (toLowerCase m)) (js ''gpt-4'')"
    and "\<not> startsWith (trim (toLowerCase m)) (js ''gpt-3.5-turbo'')"
    and "\<not> startsWith (trim (toLowerCase m)) (js ''gpt-5'')"
  shows "\<not> supportsJsonMode m"
proof -
  let ?n = "trim (toLowerCase m)"
  have a: "?n \<noteq> js ''gpt-4o''" "?n \<noteq> js ''gpt-4o-mini''" "?n \<noteq> js ''gpt-4-turbo''"
    "?n \<noteq> js ''gpt-4-turbo-preview''" "?n \<noteq> js ''gpt-5''" "?n \<noteq> js ''gpt-5.1''"
    "?n \<noteq> js ''gpt-5-mini''"
    using assms by auto
  have b: "\<not> startsWith ?n (js ''gpt-4-'')"
    using assms(1) startsWith_appendD [of ?n "js ''gpt-4''" "js ''-''"] by auto
  show ?thesis using a b assms by (simp add: supportsJsonMode_def Let_def)
qed

lemma supportsJsonMode_of_string: "supportsJsonMode_of (Str m) = Inr (supportsJsonMode m)"
  by (simp add: supportsJsonMode_of_def supportsJsonMode_def)

text \<open>
  C8, as the code has it. The four values the specification lists. A name without a
  version (no digit after the family name) is reported as not supporting JSON mode in
  the \<open>gpt-4\<close> family unless it is one of the four names the function lists
  (\<open>gpt-4o\<close>, \<open>gpt-4o-mini\<close>, \<open>gpt-4-turbo\<close>, \<open>gpt-4-turbo-preview\<close>), and
  always in the \<open>gpt-3.5-turbo\<close> family; the base names \<open>gpt-4\<close> and
  \<open>gpt-3.5-turbo\<close> are so in any letter case and with any surrounding white space.
  Every identifier that starts with \<open>gpt-5\<close> is reported as supporting it, listed
  or not, and so is every name the function lists. Every identifier outside the three families is reported as not supporting it.
  On a string the function returns a value and does not throw, and so it does on an
  absent identifier. (The general statements are for ASCII identifiers, on which the
  model of \<open>toLowerCase\<close> is exact.)
\<close>

theorem supportsJsonMode_values:
  "\<not> supportsJsonMode (js ''gpt-4'')
   \<and> supportsJsonMode (js ''gpt-4o'')
   \<and> supportsJsonMode (js ''gpt-4-1106-preview'')
   \<and> \<not> supportsJsonMode (js ''gpt-4-0314'')
   \<and> \<not> supportsJsonMode (js ''gpt-3.5-turbo'')
   \<and> (\<forall>m. is_ascii m \<and> trim (toLowerCase m) = js ''gpt-4'' \<longrightarrow> \<not> supportsJsonMode m)
   \<and> (\<forall>m. is_ascii m \<and> trim (toLowerCase m) = js ''gpt-3.5-turbo'' \<longrightarrow> \<not> supportsJsonMode m)
   \<and> (\<forall>m. is_ascii m \<and> \<not> startsWith (trim (toLowerCase m)) (js ''gpt-'')
          \<longrightarrow> \<not> supportsJsonMode m)
   \<and> (\<forall>m. is_ascii m \<and> startsWith (trim (toLowerCase m)) (js ''gpt-5'') \<longrightarrow> supportsJsonMode m)
   \<and> (\<forall>m s. is_ascii m \<and> trim (toLowerCase m) = js ''gpt-4'' @ s \<and> \<not> list_ex is_digit s
            \<and> supportsJsonMode m
          \<longrightarrow> trim (toLowerCase m) \<in>
                {js ''gpt-4o'', js ''gpt-4o-mini'', js ''gpt-4-turbo'', js ''gpt-4-turbo-preview''})
   \<and> (\<forall>m s. is_ascii m \<and> trim (toLowerCase m) = js ''gpt-3.5-turbo'' @ s
            \<and> \<not> list_ex is_digit s
          \<longrightarrow> \<not> supportsJsonMode m)
   \<and> (\<forall>m. is_ascii m \<and> \<not> startsWith (trim (toLowerCase m)) (js ''gpt-4'')
            \<and> \<not> startsWith (trim (toLowerCase m)) (js ''gpt-3.5-turbo'')
            \<and> \<not> startsWith (trim (toLowerCase m)) (js ''gpt-5'')
          \<longrightarrow> \<not> supportsJsonMode m)
   \<and> list_all supportsJsonMode json_mode_names
   \<and> (\<forall>m. supportsJsonMode_of (Str m) = Inr (supportsJsonMode m))
   \<and> supportsJsonMode_of Undefined = Inr False
   \<and> supportsJsonMode_of Null = Inr False"
proof -
  have 1: "\<not> supportsJsonMode (js ''gpt-4'')"
    by (rule supportsJsonMode_base_gpt4) (simp add: string_fn_defs)
  have 2: "supportsJsonMode (js ''gpt-4o'')"
    by (simp add: supportsJsonMode_def string_fn_defs)
  have 3: "supportsJsonMode (js ''gpt-4-1106-preview'')"
    by (simp add: supportsJsonMode_def re_gpt4_version_def string_fn_defs)
  have 4: "\<not> supportsJsonMode (js ''gpt-4-0314'')"
    by (simp add: supportsJsonMode_def re_gpt4_version_def string_fn_defs)
  have 5: "\<not> supportsJsonMode (js ''gpt-3.5-turbo'')"
    by (rule supportsJsonMode_base_gpt35) (simp add: string_fn_defs)
  have 6: "supportsJsonMode_of Undefined = Inr False" "supportsJsonMode_of Null = Inr False"
    by (simp_all add: supportsJsonMode_of_def)
  have 7: "list_all supportsJsonMode json_mode_names"
    by (simp add: json_mode_names_def supportsJsonMode_def string_fn_defs)
  show ?thesis
    using 1 2 3 4 5 6 7 supportsJsonMode_base_gpt4 supportsJsonMode_base_gpt35
      supportsJsonMode_needs_gpt supportsJsonMode_gpt5 supportsJsonMode_gpt4_unversioned
      supportsJsonMode_gpt35_unversioned supportsJsonMode_other_family
      supportsJsonMode_of_string
    by blast
qed

theorem supportsJsonMode_values_witness:
  "is_ascii (js '' GPT-4 '')
   \<and> trim (toLowerCase (js '' GPT-4 '')) = js ''gpt-4''
   \<and> \<not> supportsJsonMode (js '' GPT-4 '')
   \<and> is_ascii (js ''GPT-3.5-Turbo'')
   \<and> trim (toLowerCase (js ''GPT-3.5-Turbo'')) = js ''gpt-3.5-turbo''
   \<and> \<not> supportsJsonMode (js ''GPT-3.5-Turbo'')
   \<and> is_ascii (js ''claude-3-opus-20240229'')
   \<and> \<not> startsWith (trim (toLowerCase (js ''claude-3-opus-20240229''))) (js ''gpt-'')
   \<and> \<not> supportsJsonMode (js ''claude-3-opus-20240229'')
   \<and> is_ascii (js ''GPT-5-Pro'')
   \<and> startsWith (trim (toLowerCase (js ''GPT-5-Pro''))) (js ''gpt-5'')
   \<and> supportsJsonMode (js ''GPT-5-Pro'')
   \<and> is_ascii (js ''gpt-4-vision'')
   \<and> trim (toLowerCase (js ''gpt-4-vision'')) = js ''gpt-4'' @ js ''-vision''
   \<and> \<not> list_ex is_digit (js ''-vision'')
   \<and> \<not> supportsJsonMode (js ''gpt-4-vision'')
   \<and> is_ascii (js ''gpt-3.5-turbo-instruct'')
   \<and> trim (toLowerCase (js ''gpt-3.5-turbo-instruct'')) = js ''gpt-3.5-turbo'' @ js ''-instruct''
   \<and> \<not> list_ex is_digit (js ''-instruct'')
   \<and> \<not> supportsJsonMode (js ''gpt-3.5-turbo-instruct'')"
proof -
  have a: "is_ascii (js '' GPT-4 '') \<and> trim (toLowerCase (js '' GPT-4 '')) = js ''gpt-4''"
    by (simp add: string_fn_defs is_ascii_def)
  have b: "is_ascii (js ''GPT-3.5-Turbo'')
           \<and> trim (toLowerCase (js ''GPT-3.5-Turbo'')) = js ''gpt-3.5-turbo''"
    by (simp add: string_fn_defs is_ascii_def)
  have c: "is_ascii (js ''claude-3-opus-20240229'')
           \<and> \<not> startsWith (trim (toLowerCase (js ''claude-3-opus-20240229''))) (js ''gpt-'')"
    by (simp add: string_fn_defs is_ascii_def)
  have d: "is_ascii (js ''GPT-5-Pro'')
           \<and> startsWith (trim (toLowerCase (js ''GPT-5-Pro''))) (js ''gpt-5'')"
    by (simp add: string_fn_defs is_ascii_def)
  have e: "is_ascii (js ''gpt-4-vision'')
           \<and> trim (toLowerCase (js ''gpt-4-vision'')) = js ''gpt-4'' @ js ''-vision''
           \<and> \<not> list_ex is_digit (js ''-vision'')"
    by (simp add: string_fn_defs is_ascii_def)
  have e': "trim (toLowerCase (js ''gpt-4-vision'')) \<notin>
      {js ''gpt-4o'', js ''gpt-4o-mini'', js ''gpt-4-turbo'', js ''gpt-4-turbo-preview''}"
    by (simp add: string_fn_defs)
  have f: "is_ascii (js ''gpt-3.5-turbo-instruct'')
           \<and> trim (toLowerCase (js ''gpt-3.5-turbo-instruct'')) = js ''gpt-3.5-turbo'' @ js ''-instruct''
           \<and> \<not> list_ex is_digit (js ''-instruct'')"
    by (simp add: string_fn_defs is_ascii_def)
  note json_mode = supportsJsonMode_values
  have 1: "\<not> supportsJsonMode (js '' GPT-4 '')" using json_mode a by blast
  have 2: "\<not> supportsJsonMode (js ''GPT-3.5-Turbo'')" using json_mode b by blast
  have 3: "\<not> supportsJsonMode (js ''claude-3-opus-20240229'')" using json_mode c by blast
  have 4: "supportsJsonMode (js ''GPT-5-Pro'')" using json_mode d by blast
  have 5: "\<not> supportsJsonMode (js ''gpt-4-vision'')" using json_mode e e' by blast
  have 6: "\<not> supportsJsonMode (js ''gpt-3.5-turbo-instruct'')" using json_mode f by blast
  show ?thesis using a b c d e f 1 2 3 4 5 6 by blast
qed

text \<open>
  C8 as stated fails: \<open>gpt-5-nano\<close> has no version and is none of the names the
  function lists, and it is reported as supporting JSON mode, by the test on the
  prefix \<open>gpt-5\<close> at line 422.
\<close>

theorem supportsJsonMode_unlisted_gpt5:
  "supportsJsonMode (js ''gpt-5-nano'')
   \<and> js ''gpt-5-nano'' \<notin> set json_mode_names
   \<and> \<not> list_ex is_digit (drop 5 (js ''gpt-5-nano''))"
  by (simp add: supportsJsonMode_def json_mode_names_def string_fn_defs)

subsection \<open>The question limit of \<open>/api/analyze-answer\<close>\<close>

lemma analyze_answer_limit:
  "limit_reached b \<Longrightarrow>
   analyze_answer e b =
     (Caught (js ''Failed to analyze answer'') (ReferenceError ''modelToUse''), [])"
  by (simp add: analyze_answer_def analyze_answer_try_def Let_def)

lemma analyze_answer_no_limit_calls:
  assumes "\<not> limit_reached b"
    and "choose_prompt (customPrompt b) (env_interviewPrompt e) = Some template"
    and "keys_file (env_registry e) \<noteq> Some Json_null"
  shows "length (snd (analyze_answer e b)) = 1"
proof -
  obtain m where "model_or_current (model b) (env_registry e) = Inr m"
    using model_or_current_readable [OF assms(3)] by blast
  then show ?thesis
    using assms
    by (simp add: analyze_answer_def analyze_answer_try_def Let_def getOpenAI_cases
        split: sum.splits prod.splits)
qed

text \<open>
  C1. With \<open>questionCount = 5\<close> and \<open>currentQuestionCount = 5\<close> the check of the limit
  comes before any call of the LLM client, and no call is made; but the response it
  builds reads \<open>modelToUse\<close> before the declaration of that constant has run, so the
  handler answers from its \<open>catch\<close> block with status 500 and "Failed to analyze
  answer", not with the \<open>complete\<close> action.
\<close>

theorem analyze_answer_limit_fails:
  "analyze_answer e (b\<lparr>questionCount := Some 5, currentQuestionCount := Some 5\<rparr>) =
     (Caught (js ''Failed to analyze answer'') (ReferenceError ''modelToUse''), [])
   \<and> status (fst (analyze_answer e (b\<lparr>questionCount := Some 5, currentQuestionCount := Some 5\<rparr>)))
       = 500"
proof -
  have "limit_reached (b\<lparr>questionCount := Some 5, currentQuestionCount := Some 5\<rparr>)"
    by (simp add: limit_reached_def)
  from analyze_answer_limit [OF this, of e] show ?thesis by simp
qed

subsection \<open>Placeholder replacement\<close>

lemma getSubstitution_plain: "36 \<notin> set v \<Longrightarrow> getSubstitution m b a v = v"
  by (induction m b a v rule: getSubstitution.induct) auto

lemma replace_from_no_brace: "hd tok \<notin> set s \<Longrightarrow> replace_from tok v pre s = s"
proof (induction s arbitrary: pre)
  case Nil
  then show ?case by simp
next
  case (Cons c cs)
  have "\<not> (tok \<noteq> [] \<and> startsWith (c # cs) tok)"
    using Cons.prems by (cases tok) auto
  then show ?case using Cons by auto
qed

lemma replace_g_no_brace: "123 \<notin> set s \<Longrightarrow> replace_g n v s = s"
  by (simp add: replace_g_def replace_from_no_brace)

lemma startsWith_self: "startsWith s s"
  by (induction s) auto

lemma startsWith_append_self: "startsWith (p @ s) p"
  by (induction p) auto

lemma replace_from_token:
  "tok \<noteq> [] \<Longrightarrow> 36 \<notin> set v \<Longrightarrow> replace_from tok v pre tok = v"
  by (cases tok) (simp_all add: getSubstitution_plain startsWith_self)

lemma replace_g_token: "36 \<notin> set v \<Longrightarrow> replace_g n v (js (''{'' @ n @ ''}'')) = v"
  unfolding replace_g_def by (rule replace_from_token) simp_all

lemma replace_from_pre:
  "36 \<notin> set v \<Longrightarrow> replace_from tok v pre s = replace_from tok v pre' s"
proof (induction "length s" arbitrary: s pre pre' rule: less_induct)
  case less
  show ?case
  proof (cases s)
    case Nil
    then show ?thesis by simp
  next
    case (Cons c cs)
    show ?thesis
    proof (cases "tok \<noteq> [] \<and> startsWith (c # cs) tok")
      case True
      then have "length (drop (length tok) (c # cs)) < length s"
        using Cons by simp
      from less.hyps [OF this less.prems, of "pre @ tok" "pre' @ tok"] True Cons less.prems
      show ?thesis by (simp add: getSubstitution_plain)
    next
      case False
      have "length cs < length s" using Cons by simp
      from less.hyps [OF this less.prems, of "pre @ [c]" "pre' @ [c]"] False Cons
      show ?thesis by auto
    qed
  qed
qed

lemma replace_from_match:
  assumes "36 \<notin> set v" "tok \<noteq> []" "hd tok \<notin> set s1"
  shows "replace_from tok v pre (s1 @ tok @ s2) = s1 @ v @ replace_from tok v [] s2"
  using assms
proof (induction s1 arbitrary: pre)
  case Nil
  obtain c cs where tok: "tok = c # cs" using Nil.prems by (cases tok) auto
  have "startsWith (tok @ s2) tok" by (rule startsWith_append_self)
  then have "replace_from tok v pre (tok @ s2) =
      getSubstitution tok pre s2 v @ replace_from tok v (pre @ tok) s2"
    using tok by simp
  then show ?case
    using Nil.prems replace_from_pre [of v tok "pre @ tok" s2 "[]"]
    by (simp add: getSubstitution_plain)
next
  case (Cons c cs)
  have "\<not> startsWith (c # cs @ tok @ s2) tok"
    using Cons.prems by (cases tok) auto
  then show ?case using Cons by simp
qed

text \<open>
  C3, as the code has it. The placeholders are replaced by a fixed sequence of passes;
  each pass puts the value in as it is and goes on after the match, so the text it puts
  in is not scanned again by that pass. A later pass scans it: the token \<open>{topic}\<close> in
  the value of \<open>objective\<close> is replaced by the value of \<open>topic\<close>. The token of an
  earlier pass stays: \<open>{objective}\<close> in the value of \<open>topic\<close> is in the output.
  (Values with a dollar sign are left out here; see C4.)
\<close>

theorem sequential_replacement:
  "(\<forall>v. v \<noteq> [] \<and> 36 \<notin> set v \<and> 123 \<notin> set v \<longrightarrow>
      demographic_prompt (js ''{objective}'')
        (empty_body\<lparr>objective := js ''{topic}'', topic := v\<rparr>) = v)
   \<and> (\<forall>v. demographic_prompt (js ''{topic}'')
          (empty_body\<lparr>objective := v, topic := js ''{objective}''\<rparr>) = js ''{objective}'')
   \<and> (\<forall>n v s1 s2. 36 \<notin> set v \<and> 123 \<notin> set s1 \<longrightarrow>
          replace_g n v (s1 @ js (''{'' @ n @ ''}'') @ s2) = s1 @ v @ replace_g n v s2)"
proof -
  have a: "demographic_prompt (js ''{objective}'')
        (empty_body\<lparr>objective := js ''{topic}'', topic := v\<rparr>) = v"
    if "v \<noteq> []" "36 \<notin> set v" "123 \<notin> set v" for v
  proof -
    have 1: "replace_g ''objective'' (js ''{topic}'') (js ''{objective}'') = js ''{topic}''"
      by (simp add: replace_g_def)
    have 2: "replace_g ''topic'' v (js ''{topic}'') = v"
      using replace_g_token [of v "''topic''"] that by simp
    show ?thesis
      using that 1 2
      by (simp add: demographic_prompt_def empty_body_def or_str_def Let_def replace_g_no_brace)
  qed
  have b: "demographic_prompt (js ''{topic}'')
          (empty_body\<lparr>objective := v, topic := js ''{objective}''\<rparr>) = js ''{objective}''" for v
  proof -
    have 1: "replace_g ''objective'' w (js ''{topic}'') = js ''{topic}''" for w
      by (simp add: replace_g_def)
    have 2: "replace_g ''topic'' (js ''{objective}'') (js ''{topic}'') = js ''{objective}''"
      by (simp add: replace_g_def)
    have 3: "replace_g ''targetAudience'' w (js ''{objective}'') = js ''{objective}''" for w
      by (simp add: replace_g_def)
    have 4: "replace_g ''desiredInsights'' w (js ''{objective}'') = js ''{objective}''" for w
      by (simp add: replace_g_def)
    have 5: "replace_g ''keyQuestions'' w (js ''{objective}'') = js ''{objective}''" for w
      by (simp add: replace_g_def)
    have 6: "replace_g ''hypothesis'' w (js ''{objective}'') = js ''{objective}''" for w
      by (simp add: replace_g_def)
    show ?thesis
      using 1 2 3 4 5 6
      by (simp add: demographic_prompt_def empty_body_def or_str_def Let_def)
  qed
  have c: "replace_g n v (s1 @ js (''{'' @ n @ ''}'') @ s2) = s1 @ v @ replace_g n v s2"
    if "36 \<notin> set v" "123 \<notin> set s1" for n v s1 s2
    unfolding replace_g_def using that by (intro replace_from_match) simp_all
  show ?thesis using a b c by blast
qed

theorem sequential_replacement_witness:
  "demographic_prompt (js ''{objective}'')
     (empty_body\<lparr>objective := js ''{topic}'', topic := js ''coffee''\<rparr>) = js ''coffee''
   \<and> replace_g ''objective'' (js ''{objective}'') (js ''Goal: {objective}. Again: {objective}'')
       = js ''Goal: '' @ js ''{objective}''
         @ replace_g ''objective'' (js ''{objective}'') (js ''. Again: {objective}'')"
proof -
  have a: "js ''coffee'' \<noteq> [] \<and> 36 \<notin> set (js ''coffee'') \<and> 123 \<notin> set (js ''coffee'')"
    by simp
  have b: "36 \<notin> set (js ''{objective}'') \<and> 123 \<notin> set (js ''Goal: '')"
    by simp
  have c: "js ''Goal: {objective}. Again: {objective}''
           = js ''Goal: '' @ js (''{'' @ ''objective'' @ ''}'') @ js ''. Again: {objective}''"
    by simp
  from sequential_replacement a have 1: "demographic_prompt (js ''{objective}'')
     (empty_body\<lparr>objective := js ''{topic}'', topic := js ''coffee''\<rparr>) = js ''coffee''"
    by blast
  from sequential_replacement b
  have 2: "replace_g ''objective'' (js ''{objective}'')
             (js ''Goal: '' @ js (''{'' @ ''objective'' @ ''}'') @ js ''. Again: {objective}'')
           = js ''Goal: '' @ js ''{objective}''
             @ replace_g ''objective'' (js ''{objective}'') (js ''. Again: {objective}'')"
    by blast
  show ?thesis using 1 2 unfolding c by simp
qed

text \<open>
  C3 as stated fails: a token in a supplied value is replaced by a later pass. With
  \<open>{topic}\<close> as the objective the output is the topic, and the token is not in it; the
  same happens to \<open>{answer}\<close> in the objective of \<open>/api/analyze-answer\<close>.
\<close>

theorem nested_token_replaced:
  "demographic_prompt (js ''{objective}'')
     (empty_body\<lparr>objective := js ''{topic}'', topic := js ''X''\<rparr>) = js ''X''
   \<and> \<not> includes_js
         (demographic_prompt (js ''{objective}'')
            (empty_body\<lparr>objective := js ''{topic}'', topic := js ''X''\<rparr>))
         (js ''{topic}'')
   \<and> analyze_prompt (js ''{objective}'')
       (empty_body\<lparr>objective := js ''{answer}'', answer := js ''X''\<rparr>) = js ''X''"
  by (simp add: demographic_prompt_def analyze_prompt_def empty_body_def or_str_def Let_def
      replace_g_def text_not_specified_def text_none_def text_no_data_def demographicText_of_def)

lemma render_example:
  "render (js ''Hello {name}, topic {topic}. Bye {name}.'') [(js ''{name}'', js ''Ann'')]
   = js ''Hello Ann, topic {topic}. Bye Ann.''"
  by simp

text \<open>
  C4. \<open>String.prototype.replace\<close> reads dollar patterns in the replacement string, and
  the handlers pass the caller's value as that string. A value with \<open>$$\<close> loses a
  dollar sign, and the value \<open>$&\<close> puts the placeholder back: the occurrence is not
  replaced by the value.
\<close>

theorem render_dollar_patterns:
  "first_question_prompt (js ''Goal: {objective}'')
     (empty_body\<lparr>objective := js ''Why do people pay $$$ for coffee?''\<rparr>)
   = js ''Goal: Why do people pay $$ for coffee?''
   \<and> first_question_prompt (js ''Topic: {objective}'') (empty_body\<lparr>objective := js ''$&''\<rparr>)
     = js ''Topic: {objective}''"
  by (simp add: first_question_prompt_def replacements_def empty_body_def or_str_def
      replace_g_def demographicText_of_def text_no_data_def text_none_def
      text_not_specified_def)

subsection \<open>Recovery of the question in \<open>/api/generate-first-question\<close>\<close>


















































subsection \<open>The round trip of the credential vault\<close>

lemma utf8_decode_one: "b < 0x80 \<Longrightarrow> utf8_decode (b # bs) = b # utf8_decode bs"
  by simp

lemma utf8_decode_two:
  "2 \<le> q \<Longrightarrow> q \<le> 31 \<Longrightarrow> r < 64 \<Longrightarrow>
   utf8_decode ((0xC0 + q) # (0x80 + r) # bs) = (q * 64 + r) # utf8_decode bs"
  by (simp add: is_continuation_def)

lemma utf8_decode_three:
  "q \<le> 15 \<Longrightarrow> r < 64 \<Longrightarrow> t < 64 \<Longrightarrow> (q = 0 \<longrightarrow> 32 \<le> r) \<Longrightarrow> (q = 13 \<longrightarrow> r < 32) \<Longrightarrow>
   utf8_decode ((0xE0 + q) # (0x80 + r) # (0x80 + t) # bs) = (q * 4096 + r * 64 + t) # utf8_decode bs"
  by (auto simp: is_continuation_def)

lemma utf8_decode_four:
  "q \<le> 4 \<Longrightarrow> r < 64 \<Longrightarrow> t < 64 \<Longrightarrow> u < 64 \<Longrightarrow> (q = 0 \<longrightarrow> 16 \<le> r) \<Longrightarrow> (q = 4 \<longrightarrow> r < 16) \<Longrightarrow>
   utf8_decode ((0xF0 + q) # (0x80 + r) # (0x80 + t) # (0x80 + u) # bs)
   = utf16_units (q * 262144 + r * 4096 + t * 64 + u) @ utf8_decode bs"
  by (auto simp: is_continuation_def)

lemma div_4096: "(cp::nat) div 4096 = cp div 64 div 64"
  by (simp add: div_mult2_eq [symmetric])

lemma div_262144: "(cp::nat) div 262144 = cp div 64 div 64 div 64"
  by (simp add: div_mult2_eq [symmetric])

lemma decode_encode_cp:
  assumes "cp < 0x110000" "\<not> is_high cp" "\<not> is_low cp"
  shows "utf8_decode (encode_cp cp @ bs) = utf16_units cp @ utf8_decode bs"
proof -
  define r0 where "r0 = cp mod 64"
  define x0 where "x0 = cp div 64"
  define r1 where "r1 = x0 mod 64"
  define x1 where "x1 = x0 div 64"
  define r2 where "r2 = x1 mod 64"
  define x2 where "x2 = x1 div 64"
  have e0: "cp = x0 * 64 + r0" and b0: "r0 < 64" by (simp_all add: r0_def x0_def)
  have e1: "x0 = x1 * 64 + r1" and b1: "r1 < 64" by (simp_all add: r1_def x1_def)
  have e2: "x1 = x2 * 64 + r2" and b2: "r2 < 64" by (simp_all add: r2_def x2_def)
  have enc: "encode_cp cp =
     (if cp < 0x80 then [cp]
      else if cp < 0x800 then [0xC0 + x0, 0x80 + r0]
      else if cp < 0x10000 then [0xE0 + x1, 0x80 + r1, 0x80 + r0]
      else [0xF0 + x2, 0x80 + r2, 0x80 + r1, 0x80 + r0])"
    unfolding encode_cp_def div_4096 div_262144 r0_def x0_def r1_def x1_def r2_def x2_def by simp
  consider "cp < 0x80" | "0x80 \<le> cp" "cp < 0x800" | "0x800 \<le> cp" "cp < 0x10000" | "0x10000 \<le> cp"
    by linarith
  then show ?thesis
  proof cases
    case 1
    then show ?thesis by (simp add: enc utf16_units_def)
  next
    case 2
    have en: "encode_cp cp = [0xC0 + x0, 0x80 + r0]" using 2 enc by simp
    have un: "utf16_units cp = [cp]" using 2 by (simp add: utf16_units_def)
    have "2 \<le> x0" "x0 \<le> 31" using 2 e0 b0 by linarith+
    from utf8_decode_two [OF this b0, of bs]
    have "utf8_decode ((0xC0 + x0) # (0x80 + r0) # bs) = cp # utf8_decode bs"
      unfolding e0 [symmetric] .
    then show ?thesis unfolding en un by (simp del: utf8_decode.simps)
  next
    case 3
    have en: "encode_cp cp = [0xE0 + x1, 0x80 + r1, 0x80 + r0]" using 3 enc by simp
    have un: "utf16_units cp = [cp]" using 3 by (simp add: utf16_units_def)
    have q: "x1 \<le> 15" using 3 e0 e1 b0 b1 by linarith
    have l: "x1 = 0 \<longrightarrow> 32 \<le> r1" using 3 e0 e1 b0 b1 by auto
    have u: "x1 = 13 \<longrightarrow> r1 < 32" using 3 e0 e1 b0 b1 assms(2,3)
      unfolding is_high_def is_low_def by auto
    have c: "x1 * 4096 + r1 * 64 + r0 = cp" using e0 e1 by simp
    from utf8_decode_three [OF q b1 b0 l u, of bs]
    have "utf8_decode ((0xE0 + x1) # (0x80 + r1) # (0x80 + r0) # bs) = cp # utf8_decode bs"
      unfolding c .
    then show ?thesis unfolding en un by (simp del: utf8_decode.simps)
  next
    case 4
    have en: "encode_cp cp = [0xF0 + x2, 0x80 + r2, 0x80 + r1, 0x80 + r0]" using 4 enc by simp
    have q: "x2 \<le> 4" using 4 assms(1) e0 e1 e2 b0 b1 b2 by linarith
    have l: "x2 = 0 \<longrightarrow> 16 \<le> r2" using 4 e0 e1 e2 b0 b1 b2 by auto
    have u: "x2 = 4 \<longrightarrow> r2 < 16" using assms(1) e0 e1 e2 b0 b1 b2 by auto
    have c: "x2 * 262144 + r2 * 4096 + r1 * 64 + r0 = cp" using e0 e1 e2 by simp
    from utf8_decode_four [OF q b2 b1 b0 l u, of bs]
    have "utf8_decode ((0xF0 + x2) # (0x80 + r2) # (0x80 + r1) # (0x80 + r0) # bs)
          = utf16_units cp @ utf8_decode bs"
      unfolding c .
    then show ?thesis unfolding en by (simp del: utf8_decode.simps)
  qed
qed


lemma units_pair:
  assumes "is_high h" "is_low l"
  shows "utf16_units (0x10000 + (h - 0xD800) * 1024 + (l - 0xDC00)) = [h, l]"
proof -
  define a where "a = h - 0xD800"
  define b where "b = l - 0xDC00"
  have b: "b < 1024" and h: "h = 0xD800 + a" and l: "l = 0xDC00 + b"
    using assms by (auto simp: a_def b_def is_high_def is_low_def)
  have "(a * 1024 + b) div 1024 = a" "(a * 1024 + b) mod 1024 = b" using b by simp_all
  then show ?thesis
    unfolding a_def [symmetric] b_def [symmetric] h l by (simp add: utf16_units_def)
qed

lemma pair_cp:
  assumes "is_high h" "is_low l"
  shows "0x10000 + (h - 0xD800) * 1024 + (l - 0xDC00) < 0x110000"
    "\<not> is_high (0x10000 + (h - 0xD800) * 1024 + (l - 0xDC00))"
    "\<not> is_low (0x10000 + (h - 0xD800) * 1024 + (l - 0xDC00))"
  using assms by (auto simp: is_high_def is_low_def)

lemma utf8_roundtrip: "well_formed s \<Longrightarrow> utf8_decode (utf8_encode s) = s"
proof (induction s rule: utf8_encode.induct)
  case 1
  then show ?case by simp
next
  case (2 c)
  then have "utf8_decode (encode_cp c @ []) = utf16_units c @ utf8_decode []"
    by (intro decode_encode_cp) auto
  then show ?case using 2 by (simp add: utf16_units_def del: utf8_decode.simps) simp
next
  case (3 h l r)
  show ?case
  proof (cases "is_high h")
    case True
    with 3 have l: "is_low l" and r: "well_formed r" by auto
    let ?cp = "0x10000 + (h - 0xD800) * 1024 + (l - 0xDC00)"
    have "utf8_decode (encode_cp ?cp @ utf8_encode r) = utf16_units ?cp @ utf8_decode (utf8_encode r)"
      using pair_cp [OF True l] by (intro decode_encode_cp)
    then show ?thesis
      using True l r 3 by (simp add: units_pair del: utf8_decode.simps)
  next
    case False
    with 3 have h: "\<not> is_low h" "h < 0x10000" and r: "well_formed (l # r)" by auto
    have "utf8_decode (encode_cp h @ utf8_encode (l # r)) = utf16_units h @ utf8_decode (utf8_encode (l # r))"
      using False h by (intro decode_encode_cp) auto
    then show ?thesis
      using False h r 3 by (simp add: utf16_units_def del: utf8_decode.simps utf8_encode.simps(3))
        (simp del: utf8_decode.simps)
  qed
qed

lemma utf8_lone_surrogate: "utf8_decode (utf8_encode [0xD800]) = [0xFFFD]"
  by (simp add: is_high_def is_continuation_def)

lemma hex_value_digit: "d < 16 \<Longrightarrow> hex_value (hex_digit d) = Some d"
  by (auto simp: hex_value_def hex_digit_def)

lemma hex_roundtrip: "is_bytes bs \<Longrightarrow> hex_decode (hex_encode bs) = bs"
proof (induction bs)
  case Nil
  then show ?case by (simp add: hex_encode_def)
next
  case (Cons b bs)
  then have b: "b < 256" and bs: "is_bytes bs" by (simp_all add: is_bytes_def)
  have "b div 16 < 16" using b by (simp add: less_mult_imp_div_less)
  moreover have "b mod 16 < 16" by simp
  moreover have "16 * (b div 16) + b mod 16 = b" by simp
  ultimately show ?case
    using Cons.IH [OF bs] by (simp add: hex_encode_def hex_value_digit)
qed

lemma length_hex_encode: "length (hex_encode bs) = 2 * length bs"
  by (induction bs) (simp_all add: hex_encode_def)

lemma update_hex_roundtrip: "is_bytes bs \<Longrightarrow> update_hex (hex_encode bs) = Some bs"
  by (simp add: update_hex_def length_hex_encode hex_roundtrip)

lemma decrypt_odd_ciphertext:
  "odd (length (encrypted d)) \<Longrightarrow> decrypt lib d masterKey = Inl Failed_to_decrypt_data"
  by (simp add: decrypt_def update_hex_def)

lemma encode_cp_bytes: "cp < 0x110000 \<Longrightarrow> is_bytes (encode_cp cp)"
proof -
  assume a: "cp < 0x110000"
  define r0 where "r0 = cp mod 64"
  define x0 where "x0 = cp div 64"
  define r1 where "r1 = x0 mod 64"
  define x1 where "x1 = x0 div 64"
  define r2 where "r2 = x1 mod 64"
  define x2 where "x2 = x1 div 64"
  have e0: "cp = x0 * 64 + r0" and b0: "r0 < 64" by (simp_all add: r0_def x0_def)
  have e1: "x0 = x1 * 64 + r1" and b1: "r1 < 64" by (simp_all add: r1_def x1_def)
  have e2: "x1 = x2 * 64 + r2" and b2: "r2 < 64" by (simp_all add: r2_def x2_def)
  have enc: "encode_cp cp =
     (if cp < 0x80 then [cp]
      else if cp < 0x800 then [0xC0 + x0, 0x80 + r0]
      else if cp < 0x10000 then [0xE0 + x1, 0x80 + r1, 0x80 + r0]
      else [0xF0 + x2, 0x80 + r2, 0x80 + r1, 0x80 + r0])"
    unfolding encode_cp_def div_4096 div_262144 r0_def x0_def r1_def x1_def r2_def x2_def by simp
  have "cp < 0x800 \<longrightarrow> x0 < 32" using e0 by linarith
  moreover have "cp < 0x10000 \<longrightarrow> x1 < 16" using e0 e1 by linarith
  moreover have "x2 < 5" using a e0 e1 e2 by linarith
  ultimately show ?thesis using b0 b1 b2 by (auto simp: enc is_bytes_def)
qed

lemma utf8_encode_bytes: "well_formed s \<Longrightarrow> is_bytes (utf8_encode s)"
proof (induction s rule: utf8_encode.induct)
  case 1
  then show ?case by (simp add: is_bytes_def)
next
  case (2 c)
  then show ?case using encode_cp_bytes [of c] by simp
next
  case (3 h l r)
  have app: "is_bytes (xs @ ys) \<longleftrightarrow> is_bytes xs \<and> is_bytes ys" for xs ys
    by (simp add: is_bytes_def)
  show ?case
  proof (cases "is_high h")
    case True
    with 3 have l: "is_low l" and r: "well_formed r" by auto
    show ?thesis using True l r 3 pair_cp(1) [OF True l] by (simp add: app encode_cp_bytes)
  next
    case False
    with 3 have h: "\<not> is_low h" "h < 0x10000" and r: "well_formed (l # r)" by auto
    have "is_bytes (encode_cp h)" using h by (intro encode_cp_bytes) simp
    moreover have "is_bytes (utf8_encode (l # r))" using False r 3 by simp
    ultimately show ?thesis using False h by (simp add: app)
  qed
qed

lemma toy_ok: "crypto_ok toy_crypto"
  by (simp add: crypto_ok_def toy_crypto_def is_bytes_def list_all_length)

lemma lone_surrogate_replaced:
  assumes "crypto_ok lib" "length randomBytes = 16" "is_bytes randomBytes"
  shows "\<exists>d. encrypt lib randomBytes [0xD800] masterKey = Inr d
             \<and> decrypt lib d masterKey = Inr [0xFFFD]"
proof -
  define key where "key = scryptSync lib masterKey (js ''salt'') 32"
  have k: "length key = 32" "is_bytes key" using assms(1) by (simp_all add: crypto_ok_def key_def)
  have p: "is_bytes (utf8_encode [0xD800])" by (simp add: is_bytes_def is_high_def)
  from assms(1) k assms(2,3) p obtain ciphertext tag where
    e: "gcm_encrypt lib key randomBytes (utf8_encode [0xD800]) = Some (ciphertext, tag)"
    and b: "is_bytes ciphertext" "is_bytes tag"
    and d: "gcm_decrypt lib key randomBytes tag ciphertext = Some (utf8_encode [0xD800])"
    unfolding crypto_ok_def by blast
  have kd: "scryptSync lib masterKey (js ''salt'') 32 = key" by (simp add: key_def)
  show ?thesis
    using e b d assms(3) utf8_lone_surrogate kd
    by (simp add: encrypt_def decrypt_def hex_roundtrip update_hex_roundtrip
        del: utf8_encode.simps utf8_decode.simps)
qed

text \<open>
  C2, as the code has it. For every master key and every plaintext without an
  unpaired surrogate, \<open>decrypt\<close> of what \<open>encrypt\<close> returned, under the same key,
  is the plaintext: given that the platform's AES-256-GCM decrypts what it encrypted
  under the same key, vector and tag.
\<close>

theorem decrypt_encrypt:
  assumes "crypto_ok lib" "length randomBytes = 16" "is_bytes randomBytes" "well_formed text"
  shows "\<exists>d. encrypt lib randomBytes text masterKey = Inr d \<and> decrypt lib d masterKey = Inr text"
proof -
  define key where "key = scryptSync lib masterKey (js ''salt'') 32"
  have k: "length key = 32" "is_bytes key" using assms(1) by (simp_all add: crypto_ok_def key_def)
  have p: "is_bytes (utf8_encode text)" using assms(4) by (rule utf8_encode_bytes)
  from assms(1) k assms(2,3) p obtain ciphertext tag where
    e: "gcm_encrypt lib key randomBytes (utf8_encode text) = Some (ciphertext, tag)"
    and b: "is_bytes ciphertext" "is_bytes tag"
    and d: "gcm_decrypt lib key randomBytes tag ciphertext = Some (utf8_encode text)"
    unfolding crypto_ok_def by blast
  have kd: "scryptSync lib masterKey (js ''salt'') 32 = key" by (simp add: key_def)
  show ?thesis
    using e b d assms(3,4) kd
    by (simp add: encrypt_def decrypt_def hex_roundtrip update_hex_roundtrip utf8_roundtrip)
qed

theorem decrypt_encrypt_witness:
  "\<exists>d. encrypt toy_crypto (replicate 16 7) (js ''sk-test-123'') (js ''master'') = Inr d
       \<and> decrypt toy_crypto d (js ''master'') = Inr (js ''sk-test-123'')"
proof -
  have a: "length (replicate 16 (7::nat)) = 16" "is_bytes (replicate 16 7)"
    by (simp_all add: is_bytes_def list_all_length)
  have b: "well_formed (js ''sk-test-123'')"
    by (simp add: is_high_def is_low_def)
  from decrypt_encrypt [OF toy_ok a b] show ?thesis .
qed

text \<open>
  C2 as stated fails: \<open>encrypt\<close> turns an unpaired surrogate into U+FFFD, so the
  string that consists of the code unit D800 does not come back.
\<close>

theorem unpaired_surrogate_not_recovered:
  "\<not> (\<forall>lib randomBytes text masterKey.
        crypto_ok lib \<and> length randomBytes = 16 \<and> is_bytes randomBytes
        \<longrightarrow> (\<exists>d. encrypt lib randomBytes text masterKey = Inr d
                 \<and> decrypt lib d masterKey = Inr text))"
proof
  assume all: "\<forall>lib randomBytes text masterKey.
        crypto_ok lib \<and> length randomBytes = 16 \<and> is_bytes randomBytes
        \<longrightarrow> (\<exists>d. encrypt lib randomBytes text masterKey = Inr d
                 \<and> decrypt lib d masterKey = Inr text)"
  have a: "length (replicate 16 (0::nat)) = 16" "is_bytes (replicate 16 0)"
    by (simp_all add: is_bytes_def list_all_length)
  from all toy_ok a obtain d where
    "encrypt toy_crypto (replicate 16 0) [0xD800] [] = Inr d"
    "decrypt toy_crypto d [] = Inr [0xD800]"
    by blast
  moreover from lone_surrogate_replaced [OF toy_ok a, of "[]"] obtain d' where
    "encrypt toy_crypto (replicate 16 0) [0xD800] [] = Inr d'"
    "decrypt toy_crypto d' [] = Inr [0xFFFD]"
    by blast
  ultimately show False by simp
qed

subsection \<open>The model a handler uses\<close>

lemma getSafeModel_not_default: "getSafeModel m \<noteq> js ''gpt-5-mini''"
  using getSafeModel_confirmed [of m] by (auto simp: confirmedAvailableModels_def)

lemma first_question_models:
  "list_all (\<lambda>request. cr_model request \<noteq> js ''gpt-5-mini'') (snd (first_question e b))"
  using getSafeModel_not_default
  by (auto simp: first_question_def first_question_try_def Let_def no_prompt_template_def
      split: sum.splits prod.splits option.splits)

lemma analyze_answer_models:
  "list_all (\<lambda>request. cr_model request \<noteq> js ''gpt-5-mini'') (snd (analyze_answer e b))"
  using getSafeModel_not_default
  by (auto simp: analyze_answer_def analyze_answer_try_def Let_def no_prompt_template_def
      split: sum.splits prod.splits option.splits)

lemma getActiveModel_fresh: "getActiveModel fresh_registry = Inr (js ''gpt-5-mini'')"
  by (simp add: getActiveModel_cases fresh_registry_def)

lemma model_or_current_fresh:
  "model_or_current requested fresh_registry = Inr (or_str requested (js ''gpt-5-mini''))"
  using getActiveModel_fresh
  by (simp add: model_or_current_def getCurrentModel_def or_str_def)

text \<open>
  C10. On a fresh registry (no persisted record) \<open>getActiveModel\<close> returns
  \<open>gpt-5-mini\<close>, which is not in the allow-list of \<open>getSafeModel\<close>; so
  \<open>getSafeModel (getCurrentModel ())\<close> is \<open>gpt-4o-mini\<close>, and whatever model a
  request names, the model a handler uses, \<open>getSafeModel (model || getCurrentModel ())\<close>,
  differs from the advertised active model: no request that the two handlers send to
  the LLM client names it.
\<close>

theorem default_active_model_not_used:
  "getActiveModel fresh_registry = Inr (js ''gpt-5-mini'')
   \<and> js ''gpt-5-mini'' \<notin> set confirmedAvailableModels
   \<and> getSafeModel (js ''gpt-5-mini'') = js ''gpt-4o-mini''
   \<and> model_or_safe_current [] fresh_registry = Inr (js ''gpt-4o-mini'')
   \<and> (\<forall>requested. \<exists>requestedModel.
          model_or_current requested fresh_registry = Inr requestedModel
          \<and> Inr (getSafeModel requestedModel) \<noteq> getActiveModel fresh_registry)
   \<and> (\<forall>e b. list_all (\<lambda>request. Inr (cr_model request) \<noteq> getActiveModel fresh_registry)
                (snd (first_question e b)))
   \<and> (\<forall>e b. list_all (\<lambda>request. Inr (cr_model request) \<noteq> getActiveModel fresh_registry)
                (snd (analyze_answer e b)))"
proof -
  have b: "js ''gpt-5-mini'' \<notin> set confirmedAvailableModels"
    by (simp add: confirmedAvailableModels_def)
  have c: "getSafeModel (js ''gpt-5-mini'') = js ''gpt-4o-mini''"
    using b by (simp add: getSafeModel_cases)
  have d: "model_or_safe_current [] fresh_registry = Inr (js ''gpt-4o-mini'')"
    using c getActiveModel_fresh by (simp add: model_or_safe_current_def getCurrentModel_def)
  show ?thesis
    unfolding getActiveModel_fresh
    using b c d getSafeModel_not_default first_question_models analyze_answer_models
      model_or_current_fresh
    by simp
qed

subsection \<open>The catalog of the registry\<close>

lemma getAllKeys_models:
  assumes "getAllKeys r = Inr k"
  shows "ak_models k =
     DEFAULT_MODELS r @
     filter (\<lambda>m. model_id m \<notin> set (map model_id (DEFAULT_MODELS r))) (persisted_models r)"
proof -
  have f: "filter (\<lambda>m. model_id m \<notin> set (map model_id xs)) xs = []" for xs :: "model_descriptor list"
    by (induction xs) auto
  show ?thesis
    using assms f [of "DEFAULT_MODELS r"]
    by (auto simp: getAllKeys_def Let_def loadKeysDB_def persisted_models_def
        split: option.splits file_content.splits)
qed

lemma getAllKeys_throws:
  "(\<exists>err. getAllKeys r = Inl err) \<longleftrightarrow> keys_file r = Some Json_null"
  by (auto simp: getAllKeys_def Let_def properties_cases)

lemma getAllKeys_merges:
  assumes "getAllKeys r = Inr k"
  shows "set (ak_models k) =
       set (DEFAULT_MODELS r) \<union>
       {m \<in> set (persisted_models r). model_id m \<notin> model_id ` set (DEFAULT_MODELS r)}"
    and "filter (\<lambda>m. model_id m \<in> set (map model_id (DEFAULT_MODELS r))) (ak_models k)
       = DEFAULT_MODELS r"
proof -
  have f: "filter (\<lambda>m. model_id m \<in> set (map model_id (DEFAULT_MODELS r))) (DEFAULT_MODELS r)
           = DEFAULT_MODELS r"
    by (rule filter_True) simp
  have g: "filter (\<lambda>m. model_id m \<in> set (map model_id (DEFAULT_MODELS r)))
             (filter (\<lambda>m. model_id m \<notin> set (map model_id (DEFAULT_MODELS r))) xs) = []" for xs
    by (induction xs) auto
  show "set (ak_models k) =
       set (DEFAULT_MODELS r) \<union>
       {m \<in> set (persisted_models r). model_id m \<notin> model_id ` set (DEFAULT_MODELS r)}"
    unfolding getAllKeys_models [OF assms] by auto
  show "filter (\<lambda>m. model_id m \<in> set (map model_id (DEFAULT_MODELS r))) (ak_models k)
       = DEFAULT_MODELS r"
    unfolding getAllKeys_models [OF assms] using f g by simp
qed

lemma my_model_not_declared:
  "my_model \<notin> set declared_models" "model_id my_model \<notin> model_id ` set declared_models"
  by (simp_all add: my_model_def declared_models_def mk_model_def)

lemma my_model_new: "\<not> (\<exists>m \<in> set declared_models. model_id m = model_id my_model)"
  by (simp add: my_model_def declared_models_def mk_model_def)

lemma my_model_fields:
  "model_id my_model \<noteq> []" "model_name my_model \<noteq> []" "model_provider my_model \<noteq> []"
  by (simp_all add: my_model_def mk_model_def)

lemma addModel_read_only:
  "addModel my_model read_only_registry =
     Inr (False, read_only_registry\<lparr>DEFAULT_MODELS := declared_models @ [my_model]\<rparr>)"
  using my_model_new my_model_fields
  by (simp add: addModel_def Let_def loadKeysDB_def read_only_registry_def saveKeysDB_def)

lemma getAllKeys_read_only:
  "\<exists>k. getAllKeys read_only_registry = Inr k \<and> ak_models k = declared_models"
  by (simp add: getAllKeys_def Let_def loadKeysDB_def read_only_registry_def)

text \<open>
  C6. The catalog that \<open>getAllKeys\<close> exposes starts with the array
  \<open>DEFAULT_MODELS\<close> as the module holds it at that moment, and \<open>addModel\<close> on a
  registry without a file pushes the new model onto that very array. With no file and
  a write that fails, \<open>addModel\<close> returns \<open>false\<close>, nothing is persisted, and
  \<open>getAllKeys\<close> exposes seventeen models from then on: the sixteen declared ones
  and the custom model, which is neither a declared built-in model nor a persisted one.
  When the write succeeds the custom model is in the array too, and \<open>deleteModel\<close>
  refuses it as a default model. On a file that holds \<open>null\<close>, \<open>getAllKeys\<close>
  throws.
\<close>

theorem addModel_changes_builtin_catalog:
  "(\<exists>k. getAllKeys read_only_registry = Inr k \<and> ak_models k = declared_models)
   \<and> my_model \<notin> set declared_models
   \<and> (\<exists>r k. addModel my_model read_only_registry = Inr (False, r)
         \<and> keys_file r = None \<and> persisted_models r = []
         \<and> getAllKeys r = Inr k
         \<and> ak_models k = declared_models @ [my_model]
         \<and> my_model \<in> set (ak_models k))
   \<and> (\<exists>r. addModel my_model fresh_registry = Inr (True, r)
         \<and> deleteModel (model_id my_model) r = Inl Cannot_delete_default_model)
   \<and> getAllKeys (fresh_registry\<lparr>keys_file := Some Json_null\<rparr>) = Inl (TypeError ''keys'')"
proof -
  define r where "r = read_only_registry\<lparr>DEFAULT_MODELS := declared_models @ [my_model]\<rparr>"
  have a: "addModel my_model read_only_registry = Inr (False, r)"
    unfolding r_def by (rule addModel_read_only)
  have b: "keys_file r = None" "persisted_models r = []"
    by (simp_all add: r_def read_only_registry_def persisted_models_def)
  have c: "getAllKeys r = Inr \<lparr>ak_models = declared_models @ [my_model],
       ak_activeModel = js ''gpt-5-mini'', ak_hasKeys = False,
       ak_providerKeys = map (\<lambda>provider. (provider, False)) PROVIDER_INFO_keys\<rparr>"
    by (simp add: getAllKeys_def Let_def loadKeysDB_def r_def read_only_registry_def
        or_default_def)
  define r2 where "r2 = fresh_registry\<lparr>DEFAULT_MODELS := declared_models @ [my_model],
       keys_file := Some (Json_object \<lparr>db_keys = Some [],
         db_models = Some (declared_models @ [my_model]),
         db_activeModel = Some (js ''gpt-5-mini'')\<rparr>)\<rparr>"
  have d: "addModel my_model fresh_registry = Inr (True, r2)"
    using my_model_new my_model_fields
    by (simp add: addModel_def Let_def loadKeysDB_def fresh_registry_def saveKeysDB_def r2_def)
  have e: "deleteModel (model_id my_model) r2 = Inl Cannot_delete_default_model"
    by (simp add: deleteModel_def Let_def r2_def fresh_registry_def)
  have f: "getAllKeys (fresh_registry\<lparr>keys_file := Some Json_null\<rparr>) = Inl (TypeError ''keys'')"
    by (simp add: getAllKeys_def Let_def loadKeysDB_def)
  show ?thesis
    using a b c d e f getAllKeys_read_only my_model_not_declared(1) by auto
qed

lemma setActiveModel_fails_iff:
  assumes "keys_file r = Some (Json_object f)"
  shows "setActiveModel i r = Inl Model_not_found \<longleftrightarrow>
     i \<notin> model_id ` set (case db_models f of None \<Rightarrow> DEFAULT_MODELS r | Some ms \<Rightarrow> ms)"
  using assms
  by (auto simp: setActiveModel_def Let_def loadKeysDB_def Model_not_found_def
      split: option.splits)

text \<open>
  C5. \<open>setActiveModel\<close> looks the id up in the persisted list only. With a persisted
  list that lacks the built-in \<open>gpt-5.1\<close>, the id is in the merged catalog that
  \<open>getAllKeys\<close> exposes, and \<open>setActiveModel\<close> still fails with "Model not found".
\<close>

theorem setActiveModel_rejects_builtin:
  "(\<exists>k. getAllKeys stale_registry = Inr k \<and> js ''gpt-5.1'' \<in> model_id ` set (ak_models k))
   \<and> setActiveModel (js ''gpt-5.1'') stale_registry = Inl Model_not_found"
proof -
  obtain k where k: "getAllKeys stale_registry = Inr k"
    using getAllKeys_throws [of stale_registry] by (cases "getAllKeys stale_registry")
      (auto simp: stale_registry_def)
  have "mk_model ''gpt-5.1'' ''GPT-5.1'' ''openai'' \<in> set (DEFAULT_MODELS stale_registry)"
    by (simp add: declared_models_def stale_registry_def)
  then have "js ''gpt-5.1'' \<in> model_id ` set (DEFAULT_MODELS stale_registry)"
    by (force simp: mk_model_def)
  then have a: "js ''gpt-5.1'' \<in> model_id ` set (ak_models k)"
    unfolding getAllKeys_models [OF k] by auto
  have b: "setActiveModel (js ''gpt-5.1'') stale_registry = Inl Model_not_found"
    by (simp add: setActiveModel_def Let_def loadKeysDB_def stale_registry_def mk_model_def)
  show ?thesis using a b k by blast
qed

end
